theory Spec2Isabelle
  imports Complex_Main
begin

section \<open>Values of the host language\<close>

text \<open>
  Everything \<^verbatim>\<open>server-http.ts\<close> handles at run time is untyped (\<^verbatim>\<open>args: any\<close>,
  \<^verbatim>\<open>error: any\<close>, the parsed request body), so the model works on JavaScript values:
  what \<^verbatim>\<open>JSON.parse\<close> can produce, and \<^verbatim>\<open>undefined\<close> for a property that is not
  there. An object is an association list in insertion order; a number is a rational
  (a parsed JSON number is never NaN).
\<close>

datatype jv =
    JUndef
  | JNull
  | JBool bool
  | JNum rat
  | JStr string
  | JArr "jv list"
  | JObj "(string \<times> jv) list"

text \<open>ToBoolean: what \<^verbatim>\<open>!x\<close>, \<^verbatim>\<open>x || y\<close> and \<^verbatim>\<open>x && y\<close> test.\<close>

fun truthy :: "jv \<Rightarrow> bool" where
  "truthy JUndef = False"
| "truthy JNull = False"
| "truthy (JBool b) = b"
| "truthy (JNum n) = (n \<noteq> 0)"
| "truthy (JStr s) = (s \<noteq> [])"
| "truthy (JArr xs) = True"
| "truthy (JObj kvs) = True"

text \<open>\<^verbatim>\<open>typeof x === 'object'\<close>: objects, arrays, and \<^verbatim>\<open>null\<close>.\<close>

fun typeof_object :: "jv \<Rightarrow> bool" where
  "typeof_object JNull = True"
| "typeof_object (JArr xs) = True"
| "typeof_object (JObj kvs) = True"
| "typeof_object v = False"

text \<open>The values \<^verbatim>\<open>??\<close> and \<^verbatim>\<open>?.\<close> treat as missing.\<close>

fun nullish :: "jv \<Rightarrow> bool" where
  "nullish JUndef = True"
| "nullish JNull = True"
| "nullish v = False"

text \<open>
  \<^verbatim>\<open>x.k\<close> on a value that is neither \<^verbatim>\<open>undefined\<close> nor \<^verbatim>\<open>null\<close>, for the keys the
  program reads (\<^verbatim>\<open>method\<close>, \<^verbatim>\<open>params\<close>, \<^verbatim>\<open>name\<close>, \<^verbatim>\<open>arguments\<close>, the argument
  fields, \<^verbatim>\<open>message\<close>, \<^verbatim>\<open>stack\<close>): an object gives its own property, and neither
  the prototypes of objects and arrays nor the wrappers of primitive values define any of
  these keys, so everything else gives \<^verbatim>\<open>undefined\<close>. The read of a property of
  \<^verbatim>\<open>undefined\<close> or \<^verbatim>\<open>null\<close> throws; the callers below test \<open>nullish\<close> first where
  the source does not guard the read.
\<close>

fun get_prop :: "jv \<Rightarrow> string \<Rightarrow> jv" where
  "get_prop (JObj kvs) k = (case map_of kvs k of Some v \<Rightarrow> v | None \<Rightarrow> JUndef)"
| "get_prop v k = JUndef"

text \<open>\<^verbatim>\<open>x?.k\<close>\<close>

definition opt_prop :: "jv \<Rightarrow> string \<Rightarrow> jv" where
  "opt_prop x k = (if nullish x then JUndef else get_prop x k)"

text \<open>\<^verbatim>\<open>x ?? d\<close>\<close>

definition nullish_coalesce :: "jv \<Rightarrow> jv \<Rightarrow> jv" where
  "nullish_coalesce x d = (if nullish x then d else x)"

text \<open>
  An error raised by the language itself is a \<^verbatim>\<open>TypeError\<close> object. The program only
  ever reads the \<^verbatim>\<open>message\<close> of such an error (in the outer \<^verbatim>\<open>catch\<close>), so that is
  all the model keeps of it. The wording of a message is the engine's; the messages below
  paraphrase it, and nothing proved here depends on them.
\<close>

definition TypeError :: "string \<Rightarrow> jv" where
  "TypeError m = JObj [(''message'', JStr m)]"

section \<open>Tool units and the environment\<close>

text \<open>
  The nine tool units imported from \<^verbatim>\<open>./tools/*.js\<close> are opaque: each has an
  \<^verbatim>\<open>execute(args)\<close> that returns a result or throws. They are a parameter of the
  model, together with what the language and the libraries provide:
  \<^item> \<open>execute\<close>: the tool units; \<open>Inl e\<close> is a thrown value \<open>e\<close> (JavaScript can throw
    any value), \<open>Inr r\<close> a result;
  \<^item> \<open>json_stringify\<close>: \<^verbatim>\<open>JSON.stringify\<close>, a string or \<^verbatim>\<open>undefined\<close>;
  \<^item> \<open>to_property_key\<close>: the conversion of a value that is not a string to a property
    key (and to the text of a template literal), which yields a string or raises a
    \<^verbatim>\<open>TypeError\<close> with the given message;
  \<^item> \<open>object_prototype_call\<close>: the call \<^verbatim>\<open>toolHandlers[k](toolArgs)\<close> for a key \<open>k\<close>
    that \<^verbatim>\<open>toolHandlers\<close> inherits from \<^verbatim>\<open>Object.prototype\<close>;
  \<^item> \<open>email_format\<close>: the test behind zod's \<^verbatim>\<open>.email()\<close>.
  A tool unit is a function of its arguments here: two calls with the same arguments
  are taken against the same state of the remote store.
\<close>

datatype tool_unit =
    GetProducts | GetProductById | GetCustomers | GetOrders | GetOrderById
  | UpdateOrder | GetCustomerOrders | UpdateCustomer | CreateProduct

record env =
  execute :: "tool_unit \<Rightarrow> jv \<Rightarrow> jv + jv"
  json_stringify :: "jv \<Rightarrow> jv"
  to_property_key :: "jv \<Rightarrow> string + string"
  object_prototype_call :: "string \<Rightarrow> jv \<Rightarrow> jv + jv"
  email_format :: "string \<Rightarrow> bool"

text \<open>
  A computation returns a value or throws (\<open>Inl\<close>), and leaves the list of calls it
  made to tool units, each with the argument object the executor received.
\<close>

type_synonym call = "tool_unit \<times> jv"
type_synonym 'a io = "(jv + 'a) \<times> call list"
type_synonym handler = "env \<Rightarrow> jv \<Rightarrow> jv io"

text \<open>\<^verbatim>\<open>await unit.execute(a)\<close>\<close>

definition execute_tool :: "env \<Rightarrow> tool_unit \<Rightarrow> jv \<Rightarrow> jv io" where
  "execute_tool env u a = (execute env u a, [(u, a)])"

text \<open>
  \<^verbatim>\<open>return { content: [{ type: "text", text: JSON.stringify(result) }] }\<close>, which is
  reached only when \<^verbatim>\<open>execute\<close> did not throw.
\<close>

definition text_content :: "env \<Rightarrow> jv io \<Rightarrow> jv io" where
  "text_content env r =
     (case fst r of
        Inl e \<Rightarrow> r
      | Inr result \<Rightarrow>
          (Inr (JObj [(''content'',
                  JArr [JObj [(''type'', JStr ''text''),
                              (''text'', json_stringify env result)]])]),
           snd r))"

section \<open>The handlers of the HTTP front end\<close>

text \<open>The nine \<^verbatim>\<open>registerTool(name, async (args) => ...)\<close> handlers, in source order.\<close>

definition get_products_handler :: handler where
  "get_products_handler env args =
     (let processedArgs = JObj [(''searchTitle'', opt_prop args ''searchTitle''),
                                (''limit'', nullish_coalesce (opt_prop args ''limit'') (JNum 10))]
      in text_content env (execute_tool env GetProducts processedArgs))"

definition get_product_by_id_handler :: handler where
  "get_product_by_id_handler env args = text_content env (execute_tool env GetProductById args)"

definition get_customers_handler :: handler where
  "get_customers_handler env args =
     (let processedArgs = JObj [(''searchQuery'', opt_prop args ''searchQuery''),
                                (''limit'', nullish_coalesce (opt_prop args ''limit'') (JNum 10))]
      in text_content env (execute_tool env GetCustomers processedArgs))"

definition get_orders_handler :: handler where
  "get_orders_handler env args =
     (let processedArgs = JObj [(''status'', nullish_coalesce (opt_prop args ''status'') (JStr ''any'')),
                                (''limit'', nullish_coalesce (opt_prop args ''limit'') (JNum 10))]
      in text_content env (execute_tool env GetOrders processedArgs))"

definition get_order_by_id_handler :: handler where
  "get_order_by_id_handler env args = text_content env (execute_tool env GetOrderById args)"

definition update_order_handler :: handler where
  "update_order_handler env args = text_content env (execute_tool env UpdateOrder args)"

definition get_customer_orders_handler :: handler where
  "get_customer_orders_handler env args =
     (let processedArgs = JObj [(''customerId'', opt_prop args ''customerId''),
                                (''limit'', nullish_coalesce (opt_prop args ''limit'') (JNum 10))]
      in text_content env (execute_tool env GetCustomerOrders processedArgs))"

definition update_customer_handler :: handler where
  "update_customer_handler env args = text_content env (execute_tool env UpdateCustomer args)"

definition create_product_handler :: handler where
  "create_product_handler env args = text_content env (execute_tool env CreateProduct args)"

text \<open>
  \<^verbatim>\<open>toolHandlers\<close> after the nine \<^verbatim>\<open>registerTool\<close> calls: the own properties of the
  object, in registration order.
\<close>

definition toolHandlers :: "(string \<times> handler) list" where
  "toolHandlers =
     [(''get-products'', get_products_handler),
      (''get-product-by-id'', get_product_by_id_handler),
      (''get-customers'', get_customers_handler),
      (''get-orders'', get_orders_handler),
      (''get-order-by-id'', get_order_by_id_handler),
      (''update-order'', update_order_handler),
      (''get-customer-orders'', get_customer_orders_handler),
      (''update-customer'', update_customer_handler),
      (''create-product'', create_product_handler)]"

text \<open>
  \<^verbatim>\<open>toolHandlers\<close> is created by the literal \<^verbatim>\<open>{}\<close>, so its prototype is
  \<^verbatim>\<open>Object.prototype\<close>, and \<^verbatim>\<open>toolHandlers[name]\<close> is an ordinary property read: a
  key that is not an own property is looked up in the prototype. These are the property
  names of \<^verbatim>\<open>Object.prototype\<close>; each is bound to a function, except \<^verbatim>\<open>__proto__\<close>,
  whose getter returns \<^verbatim>\<open>Object.prototype\<close> itself. All of these values are truthy.
\<close>

definition object_prototype_keys :: "string list" where
  "object_prototype_keys =
     [''constructor'', ''__defineGetter__'', ''__defineSetter__'', ''hasOwnProperty'',
      ''__lookupGetter__'', ''__lookupSetter__'', ''isPrototypeOf'', ''propertyIsEnumerable'',
      ''toString'', ''valueOf'', ''__proto__'', ''toLocaleString'']"

datatype member = Own handler | Inherited string | Absent

text \<open>\<^verbatim>\<open>toolHandlers[k]\<close>, where \<open>Absent\<close> is \<^verbatim>\<open>undefined\<close>.\<close>

definition toolHandlers_get :: "string \<Rightarrow> member" where
  "toolHandlers_get k =
     (case map_of toolHandlers k of
        Some h \<Rightarrow> Own h
      | None \<Rightarrow> if k \<in> set object_prototype_keys then Inherited k else Absent)"

text \<open>\<^verbatim>\<open>await toolHandlers[name](toolArgs)\<close> for a value that passed the \<^verbatim>\<open>!toolHandlers[name]\<close> test.\<close>

fun call_member :: "env \<Rightarrow> member \<Rightarrow> jv \<Rightarrow> jv io" where
  "call_member env (Own h) toolArgs = h env toolArgs"
| "call_member env (Inherited k) toolArgs = (object_prototype_call env k toolArgs, [])"
| "call_member env Absent toolArgs = (Inl (TypeError ''toolHandlers[name] is not a function''), [])"

section \<open>The endpoint \<^verbatim>\<open>POST /mcp\<close>\<close>

record response =
  status :: nat
  body :: jv

text \<open>\<^verbatim>\<open>res.json(b)\<close> answers with status 200, \<^verbatim>\<open>res.status(n).json(b)\<close> with \<open>n\<close>.\<close>

definition respond :: "nat \<Rightarrow> jv \<Rightarrow> response" where
  "respond n b = \<lparr>status = n, body = b\<rparr>"

text \<open>The key that \<^verbatim>\<open>toolHandlers[name]\<close> reads and the text \<^verbatim>\<open>${name}\<close> inserts.\<close>

definition property_key :: "env \<Rightarrow> jv \<Rightarrow> string + string" where
  "property_key env name = (case name of JStr s \<Rightarrow> Inr s | _ \<Rightarrow> to_property_key env name)"

text \<open>\<^verbatim>\<open>args && typeof args === 'object' ? args : {}\<close>\<close>

definition toolArgs_of :: "jv \<Rightarrow> jv" where
  "toolArgs_of args = (if truthy args \<and> typeof_object args then args else JObj [])"

text \<open>
  The inner \<^verbatim>\<open>catch (error: any)\<close>. Reading \<^verbatim>\<open>error.message\<close> of a thrown
  \<^verbatim>\<open>null\<close> or \<^verbatim>\<open>undefined\<close> throws in turn, out of the inner \<^verbatim>\<open>catch\<close>.
\<close>

definition inner_catch :: "jv \<Rightarrow> jv + response" where
  "inner_catch error =
     (if nullish error then Inl (TypeError ''Cannot read properties of null or undefined'')
      else Inr (respond 500
             (JObj [(''error'', if truthy (get_prop error ''message'') then get_prop error ''message''
                                 else JStr ''Tool execution failed''),
                    (''details'', get_prop error ''stack'')])))"

text \<open>The \<^verbatim>\<open>tools/list\<close> branch: \<^verbatim>\<open>Object.keys(toolHandlers)\<close> are the own keys.\<close>

definition tools_list :: jv where
  "tools_list =
     JObj [(''tools'',
        JArr (map (\<lambda>name. JObj [(''name'', JStr name),
                                  (''description'', JStr (''Shopify '' @ name @ '' tool''))])
                  (map fst toolHandlers)))]"

text \<open>
  The inner \<^verbatim>\<open>try\<close>: \<^verbatim>\<open>const result = await toolHandlers[name](toolArgs); res.json(result)\<close>,
  with its \<^verbatim>\<open>catch\<close>.
\<close>

definition call_tool :: "env \<Rightarrow> member \<Rightarrow> jv \<Rightarrow> response io" where
  "call_tool env h toolArgs =
     (case call_member env h toolArgs of
        (Inr result, calls) \<Rightarrow> (Inr (respond 200 result), calls)
      | (Inl error, calls) \<Rightarrow> (inner_catch error, calls))"

text \<open>The \<^verbatim>\<open>tools/call\<close> branch, up to the outer \<^verbatim>\<open>catch\<close>.\<close>

definition tools_call :: "env \<Rightarrow> jv \<Rightarrow> response io" where
  "tools_call env params =
     (let p = (if truthy params then params else JObj []);
          name = get_prop p ''name'';
          args = get_prop p ''arguments''
      in if \<not> truthy name then
           (Inr (respond 400 (JObj [(''error'', JStr ''Tool name is required'')])), [])
         else case property_key env name of
           Inl m \<Rightarrow> (Inl (TypeError m), [])
         | Inr k \<Rightarrow>
            (case toolHandlers_get k of
               Absent \<Rightarrow>
                 (Inr (respond 404
                    (JObj [(''error'',
                       JStr (''Tool '' @ [CHR 0x27] @ k @ [CHR 0x27] @ '' not found''))])), [])
             | h \<Rightarrow> (let toolArgs = toolArgs_of args in call_tool env h toolArgs)))"

text \<open>
  The body of the outer \<^verbatim>\<open>try\<close>. \<^verbatim>\<open>const { method, params } = req.body\<close> throws when
  the body is \<^verbatim>\<open>undefined\<close> or \<^verbatim>\<open>null\<close>.
\<close>

definition mcp_try :: "env \<Rightarrow> jv \<Rightarrow> response io" where
  "mcp_try env req_body =
     (if nullish req_body then (Inl (TypeError ''Cannot destructure property of req.body''), [])
      else let method = get_prop req_body ''method'';
               params = get_prop req_body ''params''
           in if method = JStr ''tools/list'' then (Inr (respond 200 tools_list), [])
              else if method = JStr ''tools/call'' then tools_call env params
              else (Inr (respond 400 (JObj [(''error'', JStr ''Unknown method'')])), []))"

text \<open>
  The outer \<^verbatim>\<open>catch (error: any)\<close>: \<^verbatim>\<open>res.status(500).json({ error: error.message })\<close>,
  which itself throws when the caught value is \<^verbatim>\<open>undefined\<close> or \<^verbatim>\<open>null\<close>.
\<close>

definition outer_catch :: "response io \<Rightarrow> response io" where
  "outer_catch r =
     (case r of
        (Inr sent, calls) \<Rightarrow> (Inr sent, calls)
      | (Inl error, calls) \<Rightarrow>
          (if nullish error then Inl (TypeError ''Cannot read properties of null or undefined'')
           else Inr (respond 500 (JObj [(''error'', get_prop error ''message'')])),
           calls))"

text \<open>
  The handler of \<^verbatim>\<open>POST /mcp\<close> on the request body. \<open>Inr\<close> is the response sent;
  \<open>Inl\<close> would be an exception leaving the handler.
\<close>

definition post_mcp :: "env \<Rightarrow> jv \<Rightarrow> response io" where
  "post_mcp env req_body = outer_catch (mcp_try env req_body)"

section \<open>The schemas of the structured-protocol front end\<close>

text \<open>
  \<^verbatim>\<open>mcpServer.tool(name, shape, callback)\<close> declares, per tool, a shape of zod types.
  The source only builds these schemas; parsing is the zod library's. The fragment of
  zod that the nine shapes use is embedded here: a schema is a value of \<open>ztype\<close>,
  and \<open>zparse\<close> is \<^verbatim>\<open>safeParse\<close>, returning the parsed value or the first issue
  (zod reports all of them; the claims only need whether there is one, and where).
\<close>

datatype seg = Key string | Index nat

datatype zcode =
    Invalid_type
  | Too_small
  | Invalid_email
  | Invalid_regex string
  | Invalid_enum_value

datatype issue = Issue (path: "seg list") (code: zcode)

text \<open>
  The checks on a string: \<^verbatim>\<open>.min(n)\<close>, \<^verbatim>\<open>.regex(re, message)\<close> with the matcher of
  \<open>re\<close>, and \<^verbatim>\<open>.email()\<close>.
\<close>

datatype zcheck = Min nat | Regex "string \<Rightarrow> bool" string | Email

datatype ztype =
    ZString "zcheck list"
  | ZNumber
  | ZBoolean
  | ZEnum "string list"
  | ZArray ztype
  | ZObject "(string \<times> ztype) list"
  | ZOptional ztype
  | ZDefault ztype jv

text \<open>
  The regular expression \<^verbatim>\<open>/^\d+$/\<close>: one or more ASCII digits and nothing else
  (without the \<^verbatim>\<open>m\<close> flag, \<^verbatim>\<open>$\<close> matches only at the end of the input).
\<close>

definition digit :: "char \<Rightarrow> bool" where
  "digit c = (c \<in> set ''0123456789'')"

definition numeric :: "string \<Rightarrow> bool" where
  "numeric s = (s \<noteq> [] \<and> list_all digit s)"

fun check_string :: "(string \<Rightarrow> bool) \<Rightarrow> string \<Rightarrow> zcheck list \<Rightarrow> zcode option" where
  "check_string em s [] = None"
| "check_string em s (Min n # cs) =
     (if length s < n then Some Too_small else check_string em s cs)"
| "check_string em s (Regex re msg # cs) =
     (if re s then check_string em s cs else Some (Invalid_regex msg))"
| "check_string em s (Email # cs) =
     (if em s then check_string em s cs else Some Invalid_email)"

text \<open>
  The results of the elements of an array, in order: the first issue, with the index put
  in front of its path, or the parsed elements.
\<close>

fun collect_items :: "nat \<Rightarrow> (issue + jv) list \<Rightarrow> issue + jv list" where
  "collect_items i [] = Inr []"
| "collect_items i (Inl (Issue p c) # rs) = Inl (Issue (Index i # p) c)"
| "collect_items i (Inr x # rs) =
     (case collect_items (Suc i) rs of Inl e \<Rightarrow> Inl e | Inr xs \<Rightarrow> Inr (x # xs))"

text \<open>
  The results of the keys of a shape, in order. A key enters the parsed object when its
  parsed value is not \<^verbatim>\<open>undefined\<close> or the key is a property of the input. Only the
  keys of the shape are visited, so any other key of the input is dropped (zod's default
  for \<^verbatim>\<open>z.object\<close>).
\<close>

fun collect_fields :: "(string \<times> bool \<times> (issue + jv)) list \<Rightarrow> issue + (string \<times> jv) list" where
  "collect_fields [] = Inr []"
| "collect_fields ((k, present, Inl (Issue p c)) # rs) = Inl (Issue (Key k # p) c)"
| "collect_fields ((k, present, Inr x) # rs) =
     (case collect_fields rs of
        Inl e \<Rightarrow> Inl e
      | Inr fs \<Rightarrow> Inr (if x \<noteq> JUndef \<or> present then (k, x) # fs else fs))"

fun zparse :: "(string \<Rightarrow> bool) \<Rightarrow> ztype \<Rightarrow> jv \<Rightarrow> issue + jv" where
  "zparse em (ZString cs) v =
     (case v of
        JStr s \<Rightarrow> (case check_string em s cs of None \<Rightarrow> Inr v | Some c \<Rightarrow> Inl (Issue [] c))
      | _ \<Rightarrow> Inl (Issue [] Invalid_type))"
| "zparse em ZNumber v = (case v of JNum n \<Rightarrow> Inr v | _ \<Rightarrow> Inl (Issue [] Invalid_type))"
| "zparse em ZBoolean v = (case v of JBool b \<Rightarrow> Inr v | _ \<Rightarrow> Inl (Issue [] Invalid_type))"
| "zparse em (ZEnum vs) v =
     (case v of
        JStr s \<Rightarrow> if s \<in> set vs then Inr v else Inl (Issue [] Invalid_enum_value)
      | _ \<Rightarrow> Inl (Issue [] Invalid_type))"
| "zparse em (ZArray t) v =
     (case v of
        JArr xs \<Rightarrow> (case collect_items 0 (map (zparse em t) xs) of
                      Inl e \<Rightarrow> Inl e | Inr ys \<Rightarrow> Inr (JArr ys))
      | _ \<Rightarrow> Inl (Issue [] Invalid_type))"
| "zparse em (ZObject shape) v =
     (case v of
        JObj kvs \<Rightarrow>
          (case collect_fields
                  (map (\<lambda>(k, t). (k, k \<in> fst ` set kvs, zparse em t (get_prop v k))) shape) of
             Inl e \<Rightarrow> Inl e | Inr fs \<Rightarrow> Inr (JObj fs))
      | _ \<Rightarrow> Inl (Issue [] Invalid_type))"
| "zparse em (ZOptional t) v = (if v = JUndef then Inr JUndef else zparse em t v)"
| "zparse em (ZDefault t d) v = zparse em t (if v = JUndef then d else v)"

text \<open>The shapes, as declared in the nine \<^verbatim>\<open>mcpServer.tool\<close> calls.\<close>

definition metafield_schema :: ztype where
  "metafield_schema =
     ZObject [(''id'', ZOptional (ZString [])),
              (''namespace'', ZOptional (ZString [])),
              (''key'', ZOptional (ZString [])),
              (''value'', ZString []),
              (''type'', ZOptional (ZString []))]"

definition customer_id_schema :: ztype where
  "customer_id_schema = ZString [Regex numeric ''Customer ID must be numeric'']"

definition get_products_shape :: "(string \<times> ztype) list" where
  "get_products_shape =
     [(''searchTitle'', ZOptional (ZString [])),
      (''limit'', ZDefault ZNumber (JNum 10))]"

definition get_product_by_id_shape :: "(string \<times> ztype) list" where
  "get_product_by_id_shape = [(''productId'', ZString [Min 1])]"

definition get_customers_shape :: "(string \<times> ztype) list" where
  "get_customers_shape =
     [(''searchQuery'', ZOptional (ZString [])),
      (''limit'', ZDefault ZNumber (JNum 10))]"

definition get_orders_shape :: "(string \<times> ztype) list" where
  "get_orders_shape =
     [(''status'', ZDefault (ZEnum [''any'', ''open'', ''closed'', ''cancelled'']) (JStr ''any'')),
      (''limit'', ZDefault ZNumber (JNum 10))]"

definition get_order_by_id_shape :: "(string \<times> ztype) list" where
  "get_order_by_id_shape = [(''orderId'', ZString [Min 1])]"

definition update_order_shape :: "(string \<times> ztype) list" where
  "update_order_shape =
     [(''id'', ZString [Min 1]),
      (''tags'', ZOptional (ZArray (ZString []))),
      (''email'', ZOptional (ZString [Email])),
      (''note'', ZOptional (ZString [])),
      (''customAttributes'',
         ZOptional (ZArray (ZObject [(''key'', ZString []), (''value'', ZString [])]))),
      (''metafields'', ZOptional (ZArray metafield_schema)),
      (''shippingAddress'',
         ZOptional (ZObject
           [(''address1'', ZOptional (ZString [])),
            (''address2'', ZOptional (ZString [])),
            (''city'', ZOptional (ZString [])),
            (''company'', ZOptional (ZString [])),
            (''country'', ZOptional (ZString [])),
            (''firstName'', ZOptional (ZString [])),
            (''lastName'', ZOptional (ZString [])),
            (''phone'', ZOptional (ZString [])),
            (''province'', ZOptional (ZString [])),
            (''zip'', ZOptional (ZString []))]))]"

definition get_customer_orders_shape :: "(string \<times> ztype) list" where
  "get_customer_orders_shape =
     [(''customerId'', customer_id_schema),
      (''limit'', ZDefault ZNumber (JNum 10))]"

definition update_customer_shape :: "(string \<times> ztype) list" where
  "update_customer_shape =
     [(''id'', customer_id_schema),
      (''firstName'', ZOptional (ZString [])),
      (''lastName'', ZOptional (ZString [])),
      (''email'', ZOptional (ZString [Email])),
      (''phone'', ZOptional (ZString [])),
      (''tags'', ZOptional (ZArray (ZString []))),
      (''note'', ZOptional (ZString [])),
      (''taxExempt'', ZOptional ZBoolean),
      (''metafields'', ZOptional (ZArray metafield_schema))]"

definition create_product_shape :: "(string \<times> ztype) list" where
  "create_product_shape =
     [(''title'', ZString [Min 1]),
      (''descriptionHtml'', ZOptional (ZString [])),
      (''vendor'', ZOptional (ZString [])),
      (''productType'', ZOptional (ZString [])),
      (''tags'', ZOptional (ZArray (ZString []))),
      (''status'', ZDefault (ZEnum [''ACTIVE'', ''DRAFT'', ''ARCHIVED'']) (JStr ''DRAFT''))]"

text \<open>
  Every callback given to \<^verbatim>\<open>mcpServer.tool\<close> has the same body:
  \<^verbatim>\<open>const result = await unit.execute(args); return { content: [...] }\<close>.
\<close>

definition tool_callback :: "tool_unit \<Rightarrow> handler" where
  "tool_callback u env args = text_content env (execute_tool env u args)"

text \<open>The tools registered on \<^verbatim>\<open>mcpServer\<close>, in source order: name, shape, callback.\<close>

definition mcp_tools :: "(string \<times> (string \<times> ztype) list \<times> handler) list" where
  "mcp_tools =
     [(''get-products'', get_products_shape, tool_callback GetProducts),
      (''get-product-by-id'', get_product_by_id_shape, tool_callback GetProductById),
      (''get-customers'', get_customers_shape, tool_callback GetCustomers),
      (''get-orders'', get_orders_shape, tool_callback GetOrders),
      (''get-order-by-id'', get_order_by_id_shape, tool_callback GetOrderById),
      (''update-order'', update_order_shape, tool_callback UpdateOrder),
      (''get-customer-orders'', get_customer_orders_shape, tool_callback GetCustomerOrders),
      (''update-customer'', update_customer_shape, tool_callback UpdateCustomer),
      (''create-product'', create_product_shape, tool_callback CreateProduct)]"

text \<open>
  A call of a tool through the structured-protocol front end, as the protocol runtime
  performs it for a registered tool: the arguments are parsed with \<^verbatim>\<open>z.object(shape)\<close>;
  an issue rejects the call before the callback runs; otherwise the callback receives the
  parsed object.
\<close>

datatype failure = NotFoundError string | ValidationError issue | ExecutionError jv

definition mcp_call_tool :: "env \<Rightarrow> string \<Rightarrow> jv \<Rightarrow> (failure + jv) \<times> call list" where
  "mcp_call_tool env name args =
     (case map_of mcp_tools name of
        None \<Rightarrow> (Inl (NotFoundError name), [])
      | Some (shape, callback) \<Rightarrow>
          (case zparse (email_format env) (ZObject shape) args of
             Inl i \<Rightarrow> (Inl (ValidationError i), [])
           | Inr parsed \<Rightarrow>
               (case callback env parsed of
                  (Inl e, calls) \<Rightarrow> (Inl (ExecutionError e), calls)
                | (Inr r, calls) \<Rightarrow> (Inr r, calls))))"

section \<open>Sample requests and environments\<close>

text \<open>The request body \<^verbatim>\<open>{ method: "tools/call", params: { name, arguments } }\<close>.\<close>

definition tools_call_request :: "jv \<Rightarrow> jv \<Rightarrow> jv" where
  "tools_call_request name args =
     JObj [(''method'', JStr ''tools/call''),
           (''params'', JObj [(''name'', name), (''arguments'', args)])]"

text \<open>
  An \<^verbatim>\<open>Error\<close> object as a thrown value: it has a string \<^verbatim>\<open>message\<close> (empty when
  none was given) and a string \<^verbatim>\<open>stack\<close>.
\<close>

definition is_error :: "jv \<Rightarrow> bool" where
  "is_error e =
     (case (get_prop e ''message'', get_prop e ''stack'') of
        (JStr m, JStr s) \<Rightarrow> True
      | _ \<Rightarrow> False)"

text \<open>
  Two environments to run the model in. In \<open>sample_env\<close> every tool unit returns the
  empty object, and \<^verbatim>\<open>JSON.stringify\<close> gives the text \<^verbatim>\<open>{}\<close> of that object, the
  only value it is applied to there; in \<open>failing_env\<close> every tool unit throws the same
  \<^verbatim>\<open>Error\<close>. A plain object as a name converts to the key \<^verbatim>\<open>[object Object]\<close>. Of
  the members inherited from \<^verbatim>\<open>Object.prototype\<close> only \<^verbatim>\<open>constructor\<close> is run:
  \<^verbatim>\<open>Object(toolArgs)\<close> returns \<^verbatim>\<open>toolArgs\<close>, which is always an object or an array.
  The email test is a stand-in that the sample requests never consult.
\<close>

definition sample_error :: jv where
  "sample_error = JObj [(''message'', JStr ''Network request failed''),
                        (''stack'', JStr ''Error: Network request failed at execute'')]"

definition sample_env :: env where
  "sample_env =
     \<lparr>execute = (\<lambda>u a. Inr (JObj [])),
      json_stringify = (\<lambda>v. JStr ''{}''),
      to_property_key = (\<lambda>v. Inr ''[object Object]''),
      object_prototype_call =
        (\<lambda>k a. if k = ''constructor'' then Inr a
                else Inl (TypeError ''toolHandlers[name] is not a function'')),
      email_format = (\<lambda>s. CHR ''@'' \<in> set s)\<rparr>"

definition failing_env :: env where
  "failing_env = sample_env\<lparr>execute := (\<lambda>u a. Inl sample_error)\<rparr>"

section \<open>Dispatch on the HTTP front end\<close>

lemma mcp_try_tools_call:
  "get_prop req_body ''method'' = JStr ''tools/call'' \<Longrightarrow>
   mcp_try env req_body = tools_call env (get_prop req_body ''params'')"
  by (cases req_body) (simp_all add: mcp_try_def Let_def)

lemma tools_call_falsy_name:
  "\<not> truthy (get_prop params ''name'') \<Longrightarrow>
   tools_call env params =
     (Inr (respond 400 (JObj [(''error'', JStr ''Tool name is required'')])), [])"
  by (cases params) (simp_all add: tools_call_def Let_def)

lemma post_mcp_falsy_name:
  assumes "get_prop req_body ''method'' = JStr ''tools/call''"
    and "\<not> truthy (get_prop (get_prop req_body ''params'') ''name'')"
  shows "post_mcp env req_body =
    (Inr (respond 400 (JObj [(''error'', JStr ''Tool name is required'')])), [])"
  using assms
  by (simp add: post_mcp_def outer_catch_def mcp_try_tools_call tools_call_falsy_name)

lemma get_prop_defined_truthy: "get_prop p k \<noteq> JUndef \<Longrightarrow> truthy p"
  by (cases p) simp_all

lemma registered_nonempty: "map_of toolHandlers k = Some h \<Longrightarrow> k \<noteq> []"
  by (auto simp: toolHandlers_def split: if_splits)

lemma tools_call_registered:
  assumes "get_prop params ''name'' = JStr k" and "map_of toolHandlers k = Some h"
  shows "tools_call env params = call_tool env (Own h) (toolArgs_of (get_prop params ''arguments''))"
proof -
  have "truthy params" using assms(1) by (intro get_prop_defined_truthy[of params "''name''"]) simp
  moreover have "k \<noteq> []" using assms(2) by (rule registered_nonempty)
  ultimately show ?thesis using assms
    by (simp add: tools_call_def Let_def property_key_def toolHandlers_get_def)
qed

lemma post_mcp_registered:
  assumes "get_prop req_body ''method'' = JStr ''tools/call''"
    and "get_prop (get_prop req_body ''params'') ''name'' = JStr k"
    and "map_of toolHandlers k = Some h"
  shows "post_mcp env req_body =
     outer_catch (call_tool env (Own h)
        (toolArgs_of (get_prop (get_prop req_body ''params'') ''arguments'')))"
  using assms by (simp add: post_mcp_def mcp_try_tools_call tools_call_registered)

lemma outer_catch_call_tool:
  "outer_catch (call_tool env (Own h) a) =
     (case h env a of
        (Inr result, calls) \<Rightarrow> (Inr (respond 200 result), calls)
      | (Inl error, calls) \<Rightarrow>
          (Inr (if nullish error
                then respond 500 (JObj [(''error'', JStr ''Cannot read properties of null or undefined'')])
                else respond 500
                  (JObj [(''error'', if truthy (get_prop error ''message'') then get_prop error ''message''
                                      else JStr ''Tool execution failed''),
                         (''details'', get_prop error ''stack'')])), calls))"
  by (simp add: outer_catch_def call_tool_def inner_catch_def TypeError_def split: prod.splits sum.splits)

lemma outer_catch_sends:
  assumes "\<And>e. fst r = Inl e \<Longrightarrow> \<not> nullish e"
  shows "\<exists>sent. fst (outer_catch r) = Inr sent"
  using assms by (cases r) (auto simp: outer_catch_def split: sum.splits)

lemma inner_catch_not_nullish: "inner_catch error = Inl e \<Longrightarrow> \<not> nullish e"
  by (auto simp: inner_catch_def TypeError_def split: if_splits)

lemma call_tool_not_nullish: "fst (call_tool env h a) = Inl e \<Longrightarrow> \<not> nullish e"
  by (auto simp: call_tool_def split: prod.splits sum.splits dest: inner_catch_not_nullish)

lemma tools_call_not_nullish: "fst (tools_call env params) = Inl e \<Longrightarrow> \<not> nullish e"
  by (auto simp: tools_call_def Let_def TypeError_def split: if_splits sum.splits member.splits
      dest: call_tool_not_nullish)

lemma mcp_try_not_nullish: "fst (mcp_try env req_body) = Inl e \<Longrightarrow> \<not> nullish e"
  by (auto simp: mcp_try_def Let_def TypeError_def split: if_splits dest: tools_call_not_nullish)

lemma post_mcp_always_responds: "\<exists>sent. fst (post_mcp env req_body) = Inr sent"
  unfolding post_mcp_def by (rule outer_catch_sends) (rule mcp_try_not_nullish)


section \<open>The claims about the HTTP front end\<close>

lemma text_content_fst_Inl: "fst (text_content env r) = Inl e \<longleftrightarrow> fst r = Inl e"
  by (cases r) (auto simp: text_content_def split: sum.splits)

lemma text_content_snd: "snd (text_content env r) = snd r"
  by (cases r) (auto simp: text_content_def split: sum.splits)

text \<open>
  Claim C6. A \<^verbatim>\<open>tools/call\<close> request whose \<^verbatim>\<open>params\<close> have no \<^verbatim>\<open>name\<close> (or that has
  no \<^verbatim>\<open>params\<close> at all) is answered with status 400 and the body
  \<^verbatim>\<open>{ error: "Tool name is required" }\<close>, whatever \<^verbatim>\<open>arguments\<close> holds, and no tool unit
  is called.
\<close>

theorem tools_call_without_name:
  assumes "get_prop req_body ''method'' = JStr ''tools/call''"
    and "get_prop (get_prop req_body ''params'') ''name'' = JUndef"
  shows "post_mcp env req_body =
    (Inr (respond 400 (JObj [(''error'', JStr ''Tool name is required'')])), [])"
  using assms by (simp add: post_mcp_falsy_name)

theorem tools_call_without_name_witness:
  "post_mcp sample_env
     (JObj [(''method'', JStr ''tools/call''),
            (''params'', JObj [(''arguments'', JObj [(''limit'', JNum 5)])])]) =
    (Inr (respond 400 (JObj [(''error'', JStr ''Tool name is required'')])), [])"
  using tools_call_without_name
    [of "JObj [(''method'', JStr ''tools/call''),
               (''params'', JObj [(''arguments'', JObj [(''limit'', JNum 5)])])]" sample_env]
  by simp

text \<open>
  Claim C9. The name check \<^verbatim>\<open>!name\<close> rejects every falsy name, the empty string among
  them: the answer is the 400 response \<^verbatim>\<open>Tool name is required\<close>, not a 404.
\<close>

theorem tools_call_falsy_name_is_400:
  assumes "get_prop req_body ''method'' = JStr ''tools/call''"
    and "\<not> truthy (get_prop (get_prop req_body ''params'') ''name'')"
  shows "\<exists>sent. post_mcp env req_body = (Inr sent, [])
           \<and> status sent = 400
           \<and> body sent = JObj [(''error'', JStr ''Tool name is required'')]"
  using assms by (simp add: post_mcp_falsy_name respond_def)

theorem tools_call_falsy_name_is_400_witness:
  "\<exists>sent. post_mcp sample_env (tools_call_request (JStr '''') (JObj [])) = (Inr sent, [])
           \<and> status sent = 400
           \<and> body sent = JObj [(''error'', JStr ''Tool name is required'')]"
  using tools_call_falsy_name_is_400 [of "tools_call_request (JStr '''') (JObj [])" sample_env]
  by (simp add: tools_call_request_def)

text \<open>
  Claim C8. Two \<^verbatim>\<open>tools/call\<close> requests for the same name, one with
  \<^verbatim>\<open>arguments: null\<close> and one with \<^verbatim>\<open>arguments: {}\<close>, get the same response (status
  and body) and make the same calls to tool units. This holds for every name, the
  registered ones included.
\<close>

theorem null_arguments_as_empty_object:
  assumes "get_prop b1 ''method'' = JStr ''tools/call''"
    and "get_prop b2 ''method'' = JStr ''tools/call''"
    and "get_prop (get_prop b1 ''params'') ''name'' = get_prop (get_prop b2 ''params'') ''name''"
    and "get_prop (get_prop b1 ''params'') ''arguments'' = JNull"
    and "get_prop (get_prop b2 ''params'') ''arguments'' = JObj []"
  shows "post_mcp env b1 = post_mcp env b2"
proof -
  have "truthy (get_prop b1 ''params'')" "truthy (get_prop b2 ''params'')"
    using assms(4,5) by (auto intro: get_prop_defined_truthy[where k = "''arguments''"])
  then have "tools_call env (get_prop b1 ''params'') = tools_call env (get_prop b2 ''params'')"
    using assms(3,4,5)
    by (simp add: tools_call_def Let_def toolArgs_of_def split: sum.splits member.splits)
  then show ?thesis using assms(1,2) by (simp add: post_mcp_def mcp_try_tools_call)
qed

theorem null_arguments_as_empty_object_witness:
  "post_mcp sample_env (tools_call_request (JStr ''get-orders'') JNull) =
   post_mcp sample_env (tools_call_request (JStr ''get-orders'') (JObj []))
   \<and> snd (post_mcp sample_env (tools_call_request (JStr ''get-orders'') JNull)) =
       [(GetOrders, JObj [(''status'', JStr ''any''), (''limit'', JNum 10)])]"
proof -
  have "post_mcp sample_env (tools_call_request (JStr ''get-orders'') JNull) =
        post_mcp sample_env (tools_call_request (JStr ''get-orders'') (JObj []))"
    by (rule null_arguments_as_empty_object) (simp_all add: tools_call_request_def)
  moreover have "snd (post_mcp sample_env (tools_call_request (JStr ''get-orders'') JNull)) =
       [(GetOrders, JObj [(''status'', JStr ''any''), (''limit'', JNum 10)])]"
    by code_simp
  ultimately show ?thesis by simp
qed

text \<open>
  Claim C10. An array given as \<^verbatim>\<open>arguments\<close> passes the coercion unchanged (an array is
  truthy and its \<^verbatim>\<open>typeof\<close> is \<^verbatim>\<open>object\<close>), and the handler of the tool is run on the
  array itself.
\<close>

theorem array_arguments_forwarded:
  assumes "get_prop req_body ''method'' = JStr ''tools/call''"
    and "get_prop (get_prop req_body ''params'') ''name'' = JStr k"
    and "map_of toolHandlers k = Some h"
    and "get_prop (get_prop req_body ''params'') ''arguments'' = JArr xs"
  shows "toolArgs_of (JArr xs) = JArr xs
         \<and> post_mcp env req_body = outer_catch (call_tool env (Own h) (JArr xs))"
  using assms by (simp add: post_mcp_registered toolArgs_of_def)

theorem array_arguments_forwarded_witness:
  "post_mcp sample_env (tools_call_request (JStr ''update-order'') (JArr [JNum 1, JStr ''x''])) =
     outer_catch (call_tool sample_env (Own update_order_handler) (JArr [JNum 1, JStr ''x'']))
   \<and> snd (post_mcp sample_env (tools_call_request (JStr ''update-order'') (JArr [JNum 1, JStr ''x'']))) =
     [(UpdateOrder, JArr [JNum 1, JStr ''x''])]"
proof -
  have "map_of toolHandlers ''update-order'' = Some update_order_handler"
    by (simp add: toolHandlers_def)
  then have "post_mcp sample_env (tools_call_request (JStr ''update-order'') (JArr [JNum 1, JStr ''x''])) =
     outer_catch (call_tool sample_env (Own update_order_handler) (JArr [JNum 1, JStr ''x'']))"
    using array_arguments_forwarded
      [of "tools_call_request (JStr ''update-order'') (JArr [JNum 1, JStr ''x''])"
          "''update-order''" update_order_handler "[JNum 1, JStr ''x'']" sample_env]
    by (simp add: tools_call_request_def)
  moreover have "snd (post_mcp sample_env (tools_call_request (JStr ''update-order'') (JArr [JNum 1, JStr ''x'']))) =
     [(UpdateOrder, JArr [JNum 1, JStr ''x''])]"
    by code_simp
  ultimately show ?thesis by simp
qed

section \<open>What a registered handler does\<close>

lemma registered_cases:
  assumes "map_of toolHandlers k = Some h"
  shows "h \<in> set (map snd toolHandlers)"
proof -
  have "(k, h) \<in> set toolHandlers" using assms by (rule map_of_SomeD)
  then show ?thesis by force
qed

lemma registered_handler_runs_executor:
  assumes "map_of toolHandlers k = Some h"
  shows "\<exists>u a'. h env a = text_content env (execute_tool env u a')"
proof -
  have "h \<in> set (map snd toolHandlers)" using assms by (rule registered_cases)
  then consider "h = get_products_handler" | "h = get_product_by_id_handler"
    | "h = get_customers_handler" | "h = get_orders_handler" | "h = get_order_by_id_handler"
    | "h = update_order_handler" | "h = get_customer_orders_handler"
    | "h = update_customer_handler" | "h = create_product_handler"
    by (auto simp: toolHandlers_def)
  then show ?thesis
  proof cases
    case 1 then show ?thesis unfolding get_products_handler_def Let_def by blast
  next
    case 2 then show ?thesis unfolding get_product_by_id_handler_def by blast
  next
    case 3 then show ?thesis unfolding get_customers_handler_def Let_def by blast
  next
    case 4 then show ?thesis unfolding get_orders_handler_def Let_def by blast
  next
    case 5 then show ?thesis unfolding get_order_by_id_handler_def by blast
  next
    case 6 then show ?thesis unfolding update_order_handler_def by blast
  next
    case 7 then show ?thesis unfolding get_customer_orders_handler_def Let_def by blast
  next
    case 8 then show ?thesis unfolding update_customer_handler_def by blast
  next
    case 9 then show ?thesis unfolding create_product_handler_def by blast
  qed
qed

lemma handler_throws_iff:
  assumes "map_of toolHandlers k = Some h"
  shows "fst (h env a) = Inl e \<longleftrightarrow> (\<exists>u a'. snd (h env a) = [(u, a')] \<and> execute env u a' = Inl e)"
proof -
  obtain u a' where h: "h env a = text_content env (execute_tool env u a')"
    using registered_handler_runs_executor[OF assms] by blast
  show ?thesis
    by (auto simp: h text_content_fst_Inl text_content_snd execute_tool_def)
qed

text \<open>
  Claim C2. When the handler of a registered tool throws during a \<^verbatim>\<open>tools/call\<close>
  dispatch (by \<open>handler_throws_iff\<close>, exactly when \<^verbatim>\<open>execute\<close> of its tool unit
  throws), the response has status 500 and a body whose \<^verbatim>\<open>error\<close> is truthy; when the
  thrown value is an \<^verbatim>\<open>Error\<close>, the body is its message (or
  \<^verbatim>\<open>Tool execution failed\<close> for an empty message) as \<^verbatim>\<open>error\<close> and its stack as
  \<^verbatim>\<open>details\<close>. And whatever the request body is, the endpoint sends a response: no
  exception leaves the handler of \<^verbatim>\<open>POST /mcp\<close>.
\<close>

theorem executor_failure_is_500_envelope:
  assumes "get_prop req_body ''method'' = JStr ''tools/call''"
    and "get_prop (get_prop req_body ''params'') ''name'' = JStr k"
    and "map_of toolHandlers k = Some h"
    and "fst (h env (toolArgs_of (get_prop (get_prop req_body ''params'') ''arguments''))) = Inl e"
  shows "(\<exists>sent. fst (post_mcp env req_body) = Inr sent \<and> status sent = 500
            \<and> truthy (get_prop (body sent) ''error'')
            \<and> (is_error e \<longrightarrow>
                 body sent =
                   JObj [(''error'', if get_prop e ''message'' = JStr [] then JStr ''Tool execution failed''
                                      else get_prop e ''message''),
                         (''details'', get_prop e ''stack'')]))
         \<and> (\<forall>any_body. \<exists>sent. fst (post_mcp env any_body) = Inr sent)"
proof -
  let ?a = "toolArgs_of (get_prop (get_prop req_body ''params'') ''arguments'')"
  obtain calls where run: "h env ?a = (Inl e, calls)"
    using assms(4) by (cases "h env ?a") simp
  have sent: "fst (post_mcp env req_body) =
      Inr (if nullish e
           then respond 500 (JObj [(''error'', JStr ''Cannot read properties of null or undefined'')])
           else respond 500
             (JObj [(''error'', if truthy (get_prop e ''message'') then get_prop e ''message''
                                 else JStr ''Tool execution failed''),
                    (''details'', get_prop e ''stack'')]))"
    by (simp add: post_mcp_registered[OF assms(1,2,3)] outer_catch_call_tool run)
  have err: "is_error e \<Longrightarrow> \<not> nullish e
       \<and> truthy (get_prop e ''message'') = (get_prop e ''message'' \<noteq> JStr [])"
    by (cases e) (auto simp: is_error_def split: jv.splits option.splits)
  have "\<exists>sent. fst (post_mcp env req_body) = Inr sent \<and> status sent = 500
            \<and> truthy (get_prop (body sent) ''error'')
            \<and> (is_error e \<longrightarrow>
                 body sent =
                   JObj [(''error'', if get_prop e ''message'' = JStr [] then JStr ''Tool execution failed''
                                      else get_prop e ''message''),
                         (''details'', get_prop e ''stack'')])"
    using err by (auto simp: sent respond_def)
  then show ?thesis using post_mcp_always_responds by blast
qed

theorem executor_failure_is_500_envelope_witness:
  "\<exists>sent. fst (post_mcp failing_env (tools_call_request (JStr ''get-products'') (JObj []))) = Inr sent
     \<and> status sent = 500
     \<and> body sent = JObj [(''error'', JStr ''Network request failed''),
                          (''details'', JStr ''Error: Network request failed at execute'')]"
proof -
  have 1: "map_of toolHandlers ''get-products'' = Some get_products_handler"
    by (simp add: toolHandlers_def)
  have 2: "fst (get_products_handler failing_env (toolArgs_of (JObj []))) = Inl sample_error"
    by code_simp
  have 3: "is_error sample_error" by code_simp
  have 4: "get_prop sample_error ''message'' = JStr ''Network request failed''"
          "get_prop sample_error ''stack'' = JStr ''Error: Network request failed at execute''"
    by (simp_all add: sample_error_def)
  show ?thesis
    using executor_failure_is_500_envelope
      [of "tools_call_request (JStr ''get-products'') (JObj [])" "''get-products''"
          get_products_handler failing_env sample_error] 1 2 3 4
    by (auto simp: tools_call_request_def)
qed

lemma inherited_not_registered:
  assumes "k \<in> set object_prototype_keys"
  shows "map_of toolHandlers k = None"
proof -
  have "list_all (\<lambda>k. k \<notin> set (map fst toolHandlers)) object_prototype_keys"
    by code_simp
  then have "k \<notin> fst ` set toolHandlers"
    using assms by (simp add: list_all_iff)
  then show ?thesis by (simp add: map_of_eq_None_iff)
qed

lemma inherited_name_passes_lookup:
  "k \<in> set object_prototype_keys \<Longrightarrow> toolHandlers_get k = Inherited k"
  by (simp add: toolHandlers_get_def inherited_not_registered)

lemma inherited_nonempty: "k \<in> set object_prototype_keys \<Longrightarrow> k \<noteq> []"
  by (auto simp: object_prototype_keys_def)

lemma unknown_name_is_404:
  assumes "get_prop req_body ''method'' = JStr ''tools/call''"
    and "get_prop (get_prop req_body ''params'') ''name'' = JStr k"
    and "k \<noteq> []" and "toolHandlers_get k = Absent"
  shows "post_mcp env req_body =
    (Inr (respond 404 (JObj [(''error'', JStr (''Tool '' @ [CHR 0x27] @ k @ [CHR 0x27] @ '' not found''))])), [])"
proof -
  have "truthy (get_prop req_body ''params'')"
    using assms(2) by (intro get_prop_defined_truthy[where k = "''name''"]) simp
  then show ?thesis using assms
    by (simp add: post_mcp_def outer_catch_def mcp_try_tools_call tools_call_def Let_def
        property_key_def)
qed

lemma inherited_name_reaches_call:
  assumes "get_prop req_body ''method'' = JStr ''tools/call''"
    and "get_prop (get_prop req_body ''params'') ''name'' = JStr k"
    and "k \<in> set object_prototype_keys"
  shows "post_mcp env req_body =
     outer_catch (call_tool env (Inherited k)
        (toolArgs_of (get_prop (get_prop req_body ''params'') ''arguments'')))"
proof -
  have "truthy (get_prop req_body ''params'')"
    using assms(2) by (intro get_prop_defined_truthy[where k = "''name''"]) simp
  then show ?thesis
    using assms inherited_nonempty[OF assms(3)] inherited_name_passes_lookup[OF assms(3)]
    by (simp add: post_mcp_def mcp_try_tools_call tools_call_def Let_def property_key_def)
qed

lemma inherited_name_is_never_404:
  assumes "get_prop req_body ''method'' = JStr ''tools/call''"
    and "get_prop (get_prop req_body ''params'') ''name'' = JStr k"
    and "k \<in> set object_prototype_keys"
  shows "\<exists>sent. fst (post_mcp env req_body) = Inr sent \<and> (status sent = 200 \<or> status sent = 500)"
  unfolding inherited_name_reaches_call[OF assms]
  by (auto simp: outer_catch_def call_tool_def inner_catch_def TypeError_def respond_def
      split: prod.splits sum.splits)

text \<open>
  Claim C7 does not hold of the code. A name that is not registered is answered with 404
  only when \<^verbatim>\<open>toolHandlers[name]\<close> is falsy (\<open>unknown_name_is_404\<close>), and the read
  also finds what \<^verbatim>\<open>toolHandlers\<close> inherits from \<^verbatim>\<open>Object.prototype\<close>
  (\<open>inherited_name_is_never_404\<close>). The request for the unregistered name
  \<^verbatim>\<open>constructor\<close> passes the test, calls \<^verbatim>\<open>Object(toolArgs)\<close>, and is answered with
  status 200 and the arguments as body.
\<close>

theorem inherited_name_is_answered_200:
  "post_mcp sample_env
     (tools_call_request (JStr ''constructor'') (JObj [(''limit'', JNum 5)])) =
     (Inr (respond 200 (JObj [(''limit'', JNum 5)])), [])
   \<and> ''constructor'' \<notin> set (map fst toolHandlers)"
  by code_simp

section \<open>Calls made by the two front ends\<close>

lemma snd_outer_catch: "snd (outer_catch r) = snd r"
  by (cases r) (simp add: outer_catch_def split: sum.splits)

lemma snd_call_tool: "snd (call_tool env m a) = snd (call_member env m a)"
  by (simp add: call_tool_def split: prod.splits sum.splits)

lemma tools_call_request_props:
  "get_prop (tools_call_request name args) ''method'' = JStr ''tools/call''"
  "get_prop (get_prop (tools_call_request name args) ''params'') ''name'' = name"
  "get_prop (get_prop (tools_call_request name args) ''params'') ''arguments'' = args"
  by (simp_all add: tools_call_request_def)

lemma http_calls:
  assumes "map_of toolHandlers k = Some h"
  shows "snd (post_mcp env (tools_call_request (JStr k) args)) = snd (h env (toolArgs_of args))"
  using post_mcp_registered[of "tools_call_request (JStr k) args" k h env] assms
  by (simp add: tools_call_request_props snd_outer_catch snd_call_tool)

lemma toolArgs_not_nullish: "\<not> nullish (toolArgs_of args)"
  by (cases args) (simp_all add: toolArgs_of_def)

lemma opt_prop_toolArgs: "opt_prop (toolArgs_of args) f = get_prop (toolArgs_of args) f"
  by (simp add: opt_prop_def toolArgs_not_nullish)

lemma get_prop_toolArgs_JObj: "get_prop (toolArgs_of (JObj kvs)) f = get_prop (JObj kvs) f"
  by (simp add: toolArgs_of_def)

lemma get_prop_toolArgs_undef: "get_prop args f = JUndef \<Longrightarrow> get_prop (toolArgs_of args) f = JUndef"
  by (cases args) (simp_all add: toolArgs_of_def)

lemma http_calls_get_products:
  "snd (post_mcp env (tools_call_request (JStr ''get-products'') args)) =
     [(GetProducts, JObj [(''searchTitle'', get_prop (toolArgs_of args) ''searchTitle''),
                          (''limit'', nullish_coalesce (get_prop (toolArgs_of args) ''limit'') (JNum 10))])]"
  by (subst http_calls[where h = get_products_handler])
     (simp_all add: toolHandlers_def get_products_handler_def Let_def text_content_snd execute_tool_def
        opt_prop_toolArgs)

lemma http_calls_get_customers:
  "snd (post_mcp env (tools_call_request (JStr ''get-customers'') args)) =
     [(GetCustomers, JObj [(''searchQuery'', get_prop (toolArgs_of args) ''searchQuery''),
                           (''limit'', nullish_coalesce (get_prop (toolArgs_of args) ''limit'') (JNum 10))])]"
  by (subst http_calls[where h = get_customers_handler])
     (simp_all add: toolHandlers_def get_customers_handler_def Let_def text_content_snd execute_tool_def
        opt_prop_toolArgs)

lemma http_calls_get_orders:
  "snd (post_mcp env (tools_call_request (JStr ''get-orders'') args)) =
     [(GetOrders, JObj [(''status'', nullish_coalesce (get_prop (toolArgs_of args) ''status'') (JStr ''any'')),
                        (''limit'', nullish_coalesce (get_prop (toolArgs_of args) ''limit'') (JNum 10))])]"
  by (subst http_calls[where h = get_orders_handler])
     (simp_all add: toolHandlers_def get_orders_handler_def Let_def text_content_snd execute_tool_def
        opt_prop_toolArgs)

lemma http_calls_get_customer_orders:
  "snd (post_mcp env (tools_call_request (JStr ''get-customer-orders'') args)) =
     [(GetCustomerOrders, JObj [(''customerId'', get_prop (toolArgs_of args) ''customerId''),
                                (''limit'', nullish_coalesce (get_prop (toolArgs_of args) ''limit'') (JNum 10))])]"
  by (subst http_calls[where h = get_customer_orders_handler])
     (simp_all add: toolHandlers_def get_customer_orders_handler_def Let_def text_content_snd execute_tool_def
        opt_prop_toolArgs)

lemma http_calls_get_product_by_id:
  "snd (post_mcp env (tools_call_request (JStr ''get-product-by-id'') args)) =
     [(GetProductById, toolArgs_of args)]"
  by (subst http_calls[where h = get_product_by_id_handler])
     (simp_all add: toolHandlers_def get_product_by_id_handler_def text_content_snd execute_tool_def)

lemma http_calls_get_order_by_id:
  "snd (post_mcp env (tools_call_request (JStr ''get-order-by-id'') args)) =
     [(GetOrderById, toolArgs_of args)]"
  by (subst http_calls[where h = get_order_by_id_handler])
     (simp_all add: toolHandlers_def get_order_by_id_handler_def text_content_snd execute_tool_def)

lemma http_calls_update_order:
  "snd (post_mcp env (tools_call_request (JStr ''update-order'') args)) =
     [(UpdateOrder, toolArgs_of args)]"
  by (subst http_calls[where h = update_order_handler])
     (simp_all add: toolHandlers_def update_order_handler_def text_content_snd execute_tool_def)

lemma http_calls_update_customer:
  "snd (post_mcp env (tools_call_request (JStr ''update-customer'') args)) =
     [(UpdateCustomer, toolArgs_of args)]"
  by (subst http_calls[where h = update_customer_handler])
     (simp_all add: toolHandlers_def update_customer_handler_def text_content_snd execute_tool_def)

lemma http_calls_create_product:
  "snd (post_mcp env (tools_call_request (JStr ''create-product'') args)) =
     [(CreateProduct, toolArgs_of args)]"
  by (subst http_calls[where h = create_product_handler])
     (simp_all add: toolHandlers_def create_product_handler_def text_content_snd execute_tool_def)

lemma mcp_call_tool_rejects:
  assumes "map_of mcp_tools k = Some (shape, cb)"
    and "zparse (email_format env) (ZObject shape) args = Inl i"
  shows "mcp_call_tool env k args = (Inl (ValidationError i), [])"
  using assms by (simp add: mcp_call_tool_def)

lemma mcp_call_tool_accepts:
  assumes "map_of mcp_tools k = Some (shape, tool_callback u)"
    and "zparse (email_format env) (ZObject shape) args = Inr parsed"
  shows "snd (mcp_call_tool env k args) = [(u, parsed)]"
    and "fst (mcp_call_tool env k args) \<noteq> Inl (ValidationError i)"
  using assms
  by (simp_all add: mcp_call_tool_def tool_callback_def text_content_def execute_tool_def
      split: sum.splits prod.splits)

lemma collect_fields_Cons:
  "collect_fields ((k, pr, r) # rs) =
     (case r of
        Inl i \<Rightarrow> Inl (Issue (Key k # path i) (code i))
      | Inr x \<Rightarrow>
          (case collect_fields rs of
             Inl e \<Rightarrow> Inl e
           | Inr fs \<Rightarrow> Inr (if x \<noteq> JUndef \<or> pr then (k, x) # fs else fs)))"
proof (cases r)
  case (Inl i) then show ?thesis by (cases i) simp
next
  case (Inr x) then show ?thesis by simp
qed

lemma collect_fields_keys:
  "collect_fields rs = Inr fs \<Longrightarrow> fst ` set fs \<subseteq> fst ` set rs"
proof (induction rs arbitrary: fs)
  case Nil then show ?case by simp
next
  case (Cons r rs)
  obtain k pr res where r: "r = (k, pr, res)" by (cases r)
  from Cons.prems obtain x fs' where
    "res = Inr x" "collect_fields rs = Inr fs'"
    "fs = (if x \<noteq> JUndef \<or> pr then (k, x) # fs' else fs')"
    by (auto simp: r collect_fields_Cons split: sum.splits)
  with Cons.IH[of fs'] show ?case by (auto simp: r)
qed

lemma zparse_object_keys:
  assumes "zparse em (ZObject shape) args = Inr parsed"
  shows "\<exists>fs. parsed = JObj fs \<and> fst ` set fs \<subseteq> fst ` set shape"
proof (cases args)
  case (JObj kvs)
  with assms obtain fs where
    fs: "collect_fields (map (\<lambda>(k, t). (k, k \<in> fst ` set kvs, zparse em t (get_prop args k))) shape) = Inr fs"
    and p: "parsed = JObj fs"
    by (auto split: sum.splits)
  have "fst ` set fs \<subseteq> fst ` set shape"
    using collect_fields_keys[OF fs] by force
  with p show ?thesis by blast
qed (use assms in simp_all)

lemma mcp_tools_lookup:
  "map_of mcp_tools ''get-products'' = Some (get_products_shape, tool_callback GetProducts)"
  "map_of mcp_tools ''get-product-by-id'' = Some (get_product_by_id_shape, tool_callback GetProductById)"
  "map_of mcp_tools ''get-customers'' = Some (get_customers_shape, tool_callback GetCustomers)"
  "map_of mcp_tools ''get-orders'' = Some (get_orders_shape, tool_callback GetOrders)"
  "map_of mcp_tools ''get-order-by-id'' = Some (get_order_by_id_shape, tool_callback GetOrderById)"
  "map_of mcp_tools ''update-order'' = Some (update_order_shape, tool_callback UpdateOrder)"
  "map_of mcp_tools ''get-customer-orders'' = Some (get_customer_orders_shape, tool_callback GetCustomerOrders)"
  "map_of mcp_tools ''update-customer'' = Some (update_customer_shape, tool_callback UpdateCustomer)"
  "map_of mcp_tools ''create-product'' = Some (create_product_shape, tool_callback CreateProduct)"
  by (simp_all add: mcp_tools_def)

lemma zparse_number_result:
  "zparse em ZNumber v = Inr x \<Longrightarrow> x = v \<and> \<not> nullish v"
  by (cases v) auto

lemma zparse_string_result:
  "zparse em (ZString cs) v = Inr x \<Longrightarrow> x = v \<and> \<not> nullish v"
  by (cases v) (auto split: option.splits)

lemma zparse_enum_result:
  "zparse em (ZEnum vs) v = Inr x \<Longrightarrow> x = v \<and> \<not> nullish v"
  by (cases v) (auto split: if_splits)

lemma zparse_with_limit:
  assumes "f1 \<noteq> ''limit''"
  shows "zparse em (ZObject [(f1, t1), (''limit'', ZDefault ZNumber (JNum 10))]) args =
    (case args of
       JObj kvs \<Rightarrow>
         (case zparse em t1 (get_prop args f1) of
            Inl i \<Rightarrow> Inl (Issue (Key f1 # path i) (code i))
          | Inr x1 \<Rightarrow>
              (case zparse em ZNumber (if get_prop args ''limit'' = JUndef then JNum 10
                                       else get_prop args ''limit'') of
                 Inl i \<Rightarrow> Inl (Issue (Key ''limit'' # path i) (code i))
               | Inr x2 \<Rightarrow>
                   Inr (JObj ((if x1 \<noteq> JUndef \<or> f1 \<in> fst ` set kvs then [(f1, x1)] else [])
                              @ [(''limit'', x2)]))))
     | _ \<Rightarrow> Inl (Issue [] Invalid_type))"
proof (cases args)
  case (JObj kvs)
  have nz: "\<And>v x. zparse em ZNumber v = Inr x \<Longrightarrow> x \<noteq> JUndef"
    using zparse_number_result by fastforce
  show ?thesis
    using nz by (auto simp: JObj collect_fields_Cons split: sum.splits)
qed simp_all

section \<open>The claims about both front ends\<close>

lemma http_limit_default:
  assumes "(k, u) \<in> set [(''get-products'', GetProducts), (''get-customers'', GetCustomers),
                          (''get-orders'', GetOrders), (''get-customer-orders'', GetCustomerOrders)]"
    and "get_prop args ''limit'' = JUndef"
  shows "\<exists>a. snd (post_mcp env (tools_call_request (JStr k) args)) = [(u, a)]
             \<and> get_prop a ''limit'' = JNum 10"
  using assms
  by (auto simp: http_calls_get_products http_calls_get_customers http_calls_get_orders
      http_calls_get_customer_orders get_prop_toolArgs_undef nullish_coalesce_def)

lemma with_limit_called:
  assumes "f1 \<noteq> ''limit''"
    and "map_of mcp_tools k =
           Some ([(f1, t1), (''limit'', ZDefault ZNumber (JNum 10))], tool_callback u)"
    and "args = JObj kvs" and "get_prop args ''limit'' = JUndef"
    and "zparse (email_format env) t1 (get_prop args f1) = Inr x1"
  shows "\<exists>a. snd (mcp_call_tool env k args) = [(u, a)] \<and> get_prop a ''limit'' = JNum 10
            \<and> (\<forall>i. fst (mcp_call_tool env k args) \<noteq> Inl (ValidationError i))"
proof -
  let ?parsed = "JObj ((if x1 \<noteq> JUndef \<or> f1 \<in> fst ` set kvs then [(f1, x1)] else [])
                       @ [(''limit'', JNum 10)])"
  have p: "zparse (email_format env)
             (ZObject [(f1, t1), (''limit'', ZDefault ZNumber (JNum 10))]) args = Inr ?parsed"
    unfolding zparse_with_limit[OF assms(1)] using assms(3,4,5) by simp
  have "get_prop ?parsed ''limit'' = JNum 10" using assms(1) by simp
  then show ?thesis
    using mcp_call_tool_accepts[OF assms(2) p] by blast
qed

lemma with_limit_rejected:
  assumes "f1 \<noteq> ''limit''"
    and "map_of mcp_tools k =
           Some ([(f1, t1), (''limit'', ZDefault ZNumber (JNum 10))], tool_callback u)"
    and "args = JObj kvs"
    and "zparse (email_format env) t1 (get_prop args f1) = Inl i"
  shows "\<exists>p c. mcp_call_tool env k args = (Inl (ValidationError (Issue (Key f1 # p) c)), [])"
proof -
  have p: "zparse (email_format env)
             (ZObject [(f1, t1), (''limit'', ZDefault ZNumber (JNum 10))]) args =
           Inl (Issue (Key f1 # path i) (code i))"
    unfolding zparse_with_limit[OF assms(1)] using assms(3,4) by simp
  show ?thesis using mcp_call_tool_rejects[OF assms(2) p] by blast
qed

lemma zparse_optional_string_iff:
  "zparse em (ZOptional (ZString [])) v =
     (if v = JUndef \<or> (\<exists>s. v = JStr s) then Inr v else Inl (Issue [] Invalid_type))"
  by (cases v) simp_all

lemma zparse_order_status_iff:
  "zparse em (ZDefault (ZEnum [''any'', ''open'', ''closed'', ''cancelled'']) (JStr ''any'')) v =
     (if v = JUndef then Inr (JStr ''any'')
      else if \<exists>s \<in> set [''any'', ''open'', ''closed'', ''cancelled'']. v = JStr s then Inr v
      else Inl (Issue [] (case v of JStr s \<Rightarrow> Invalid_enum_value | _ \<Rightarrow> Invalid_type)))"
  by (cases v) auto

lemma zparse_customer_id_iff:
  "zparse em customer_id_schema v =
     (if \<exists>s. v = JStr s \<and> numeric s then Inr v
      else Inl (Issue [] (case v of JStr s \<Rightarrow> Invalid_regex ''Customer ID must be numeric''
                                   | _ \<Rightarrow> Invalid_type)))"
  by (cases v) (simp_all add: customer_id_schema_def)

text \<open>
  Against claim C4 as stated: on the structured-protocol front end a call of
  \<^verbatim>\<open>get-customer-orders\<close> that omits \<^verbatim>\<open>limit\<close> and has no \<^verbatim>\<open>customerId\<close> is
  rejected at \<^verbatim>\<open>customerId\<close>, and no executor is called.
\<close>

theorem omitted_limit_rejected_without_customer_id:
  "get_prop (JObj []) ''limit'' = JUndef
   \<and> mcp_call_tool sample_env ''get-customer-orders'' (JObj []) =
       (Inl (ValidationError (Issue [Key ''customerId''] Invalid_type)), [])"
  by code_simp

text \<open>
  Claim C4, as the code has it. For the four tools whose schema declares \<^verbatim>\<open>limit\<close> and
  a call that omits \<^verbatim>\<open>limit\<close>: the HTTP handler always calls the tool's executor with
  \<^verbatim>\<open>limit\<close> equal to 10. On the structured-protocol front end, when the arguments are
  an object whose other declared field is valid (\<^verbatim>\<open>searchTitle\<close> or \<^verbatim>\<open>searchQuery\<close>
  absent or a string, \<^verbatim>\<open>status\<close> absent or one of the four order states,
  \<^verbatim>\<open>customerId\<close> a string of digits), the call is not rejected and the tool's executor
  is called with \<^verbatim>\<open>limit\<close> equal to 10; when that field is not valid, the call is
  rejected at that field and no executor is called.
\<close>

theorem omitted_limit_reaches_executor:
  assumes "(k, u, f1, valid) \<in> set
      [(''get-products'', GetProducts, ''searchTitle'', \<lambda>v. v = JUndef \<or> (\<exists>s. v = JStr s)),
       (''get-customers'', GetCustomers, ''searchQuery'', \<lambda>v. v = JUndef \<or> (\<exists>s. v = JStr s)),
       (''get-orders'', GetOrders, ''status'',
          \<lambda>v. v = JUndef \<or> (\<exists>s \<in> set [''any'', ''open'', ''closed'', ''cancelled'']. v = JStr s)),
       (''get-customer-orders'', GetCustomerOrders, ''customerId'',
          \<lambda>v. \<exists>s. v = JStr s \<and> numeric s)]"
    and "get_prop args ''limit'' = JUndef"
  shows "(\<exists>a. snd (post_mcp env (tools_call_request (JStr k) args)) = [(u, a)]
              \<and> get_prop a ''limit'' = JNum 10)
       \<and> ((\<exists>kvs. args = JObj kvs) \<and> valid (get_prop args f1) \<longrightarrow>
            (\<exists>a. snd (mcp_call_tool env k args) = [(u, a)] \<and> get_prop a ''limit'' = JNum 10
                 \<and> (\<forall>i. fst (mcp_call_tool env k args) \<noteq> Inl (ValidationError i))))
       \<and> ((\<exists>kvs. args = JObj kvs) \<and> \<not> valid (get_prop args f1) \<longrightarrow>
            (\<exists>p c. mcp_call_tool env k args =
                      (Inl (ValidationError (Issue (Key f1 # p) c)), [])))"
proof -
  have ku: "(k, u) \<in> set [(''get-products'', GetProducts), (''get-customers'', GetCustomers),
                          (''get-orders'', GetOrders), (''get-customer-orders'', GetCustomerOrders)]"
    using assms(1) by auto
  have http: "\<exists>a. snd (post_mcp env (tools_call_request (JStr k) args)) = [(u, a)]
              \<and> get_prop a ''limit'' = JNum 10"
    by (rule http_limit_default[OF ku assms(2)])
  obtain t1 where f1: "f1 \<noteq> ''limit''"
    and tool: "map_of mcp_tools k =
               Some ([(f1, t1), (''limit'', ZDefault ZNumber (JNum 10))], tool_callback u)"
    and ok: "\<And>v. valid v \<Longrightarrow> \<exists>x. zparse (email_format env) t1 v = Inr x"
    and bad: "\<And>v. \<not> valid v \<Longrightarrow> \<exists>i. zparse (email_format env) t1 v = Inl i"
  proof -
    consider (p) "k = ''get-products''" "u = GetProducts" "f1 = ''searchTitle''"
         "valid = (\<lambda>v. v = JUndef \<or> (\<exists>s. v = JStr s))"
      | (c) "k = ''get-customers''" "u = GetCustomers" "f1 = ''searchQuery''"
         "valid = (\<lambda>v. v = JUndef \<or> (\<exists>s. v = JStr s))"
      | (o) "k = ''get-orders''" "u = GetOrders" "f1 = ''status''"
         "valid = (\<lambda>v. v = JUndef \<or> (\<exists>s \<in> set [''any'', ''open'', ''closed'', ''cancelled'']. v = JStr s))"
      | (co) "k = ''get-customer-orders''" "u = GetCustomerOrders" "f1 = ''customerId''"
         "valid = (\<lambda>v. \<exists>s. v = JStr s \<and> numeric s)"
    proof -
      have "(k = ''get-products'' \<and> u = GetProducts \<and> f1 = ''searchTitle''
               \<and> valid = (\<lambda>v. v = JUndef \<or> (\<exists>s. v = JStr s)))
          \<or> (k = ''get-customers'' \<and> u = GetCustomers \<and> f1 = ''searchQuery''
               \<and> valid = (\<lambda>v. v = JUndef \<or> (\<exists>s. v = JStr s)))
          \<or> (k = ''get-orders'' \<and> u = GetOrders \<and> f1 = ''status''
               \<and> valid = (\<lambda>v. v = JUndef \<or> (\<exists>s \<in> set [''any'', ''open'', ''closed'', ''cancelled'']. v = JStr s)))
          \<or> (k = ''get-customer-orders'' \<and> u = GetCustomerOrders \<and> f1 = ''customerId''
               \<and> valid = (\<lambda>v. \<exists>s. v = JStr s \<and> numeric s))"
        using assms(1) by (simp only: list.set insert_iff empty_iff prod.inject simp_thms)
      then show ?thesis
        by (elim disjE conjE) (erule (3) p c o co)+
    qed
    then show thesis
    proof cases
      case p
      show thesis
        by (rule that[of "ZOptional (ZString [])"])
           (simp_all only: p mcp_tools_lookup get_products_shape_def zparse_optional_string_iff,
            simp_all)
    next
      case c
      show thesis
        by (rule that[of "ZOptional (ZString [])"])
           (simp_all only: c mcp_tools_lookup get_customers_shape_def zparse_optional_string_iff,
            simp_all)
    next
      case o
      show thesis
        by (rule that[of "ZDefault (ZEnum [''any'', ''open'', ''closed'', ''cancelled'']) (JStr ''any'')"])
           (simp_all only: o mcp_tools_lookup get_orders_shape_def zparse_order_status_iff,
            auto)
    next
      case co
      show thesis
        by (rule that[of customer_id_schema])
           (simp_all only: co mcp_tools_lookup get_customer_orders_shape_def zparse_customer_id_iff,
            auto)
    qed
  qed
  have called: "\<exists>a. snd (mcp_call_tool env k args) = [(u, a)] \<and> get_prop a ''limit'' = JNum 10
                 \<and> (\<forall>i. fst (mcp_call_tool env k args) \<noteq> Inl (ValidationError i))"
    if obj: "args = JObj kvs" and v: "valid (get_prop args f1)" for kvs
  proof -
    obtain x where "zparse (email_format env) t1 (get_prop args f1) = Inr x"
      using ok[OF v] by blast
    then show ?thesis by (rule with_limit_called[OF f1 tool obj assms(2)])
  qed
  have rejected: "\<exists>p c. mcp_call_tool env k args =
                      (Inl (ValidationError (Issue (Key f1 # p) c)), [])"
    if obj: "args = JObj kvs" and v: "\<not> valid (get_prop args f1)" for kvs
  proof -
    obtain i where "zparse (email_format env) t1 (get_prop args f1) = Inl i"
      using bad[OF v] by blast
    then show ?thesis by (rule with_limit_rejected[OF f1 tool obj])
  qed
  show ?thesis using http called rejected by blast
qed

theorem omitted_limit_reaches_executor_witness:
  "\<exists>a. snd (mcp_call_tool sample_env ''get-customer-orders''
              (JObj [(''customerId'', JStr ''12345'')])) = [(GetCustomerOrders, a)]
        \<and> get_prop a ''limit'' = JNum 10"
proof -
  have h1: "(''get-customer-orders'', GetCustomerOrders, ''customerId'',
             \<lambda>v. \<exists>s. v = JStr s \<and> numeric s) \<in> set
      [(''get-products'', GetProducts, ''searchTitle'', \<lambda>v. v = JUndef \<or> (\<exists>s. v = JStr s)),
       (''get-customers'', GetCustomers, ''searchQuery'', \<lambda>v. v = JUndef \<or> (\<exists>s. v = JStr s)),
       (''get-orders'', GetOrders, ''status'',
          \<lambda>v. v = JUndef \<or> (\<exists>s \<in> set [''any'', ''open'', ''closed'', ''cancelled'']. v = JStr s)),
       (''get-customer-orders'', GetCustomerOrders, ''customerId'',
          \<lambda>v. \<exists>s. v = JStr s \<and> numeric s)]"
    by simp
  have h2: "get_prop (JObj [(''customerId'', JStr ''12345'')]) ''limit'' = JUndef"
    by simp
  have h3: "\<exists>kvs. JObj [(''customerId'', JStr ''12345'')] = JObj kvs" by simp
  have h4: "\<exists>s. get_prop (JObj [(''customerId'', JStr ''12345'')]) ''customerId'' = JStr s
                \<and> numeric s"
    by (simp add: numeric_def digit_def)
  show ?thesis
    using omitted_limit_reaches_executor[OF h1 h2, of sample_env] h3 h4 by blast
qed

text \<open>
  Against claim C3 as stated: on the HTTP front end the identifier \<^verbatim>\<open>abc\<close> is not
  rejected. The handlers of \<^verbatim>\<open>get-customer-orders\<close> and \<^verbatim>\<open>update-customer\<close> run
  their executors on it and the response is 200.
\<close>

theorem http_runs_executor_on_non_numeric_id:
  "post_mcp sample_env
     (tools_call_request (JStr ''get-customer-orders'') (JObj [(''customerId'', JStr ''abc'')])) =
   (Inr (respond 200
      (JObj [(''content'', JArr [JObj [(''type'', JStr ''text''), (''text'', JStr ''{}'')]])])),
    [(GetCustomerOrders, JObj [(''customerId'', JStr ''abc''), (''limit'', JNum 10)])])
   \<and> post_mcp sample_env
     (tools_call_request (JStr ''update-customer'') (JObj [(''id'', JStr ''abc'')])) =
   (Inr (respond 200
      (JObj [(''content'', JArr [JObj [(''type'', JStr ''text''), (''text'', JStr ''{}'')]])])),
    [(UpdateCustomer, JObj [(''id'', JStr ''abc'')])])"
  by code_simp

lemma numeric_abc: "\<not> numeric ''abc''" "numeric ''12345''"
  by (simp_all add: numeric_def digit_def)

lemma zparse_customer_orders_abc:
  "zparse em (ZObject get_customer_orders_shape) (JObj ((''customerId'', JStr ''abc'') # rest)) =
     Inl (Issue [Key ''customerId''] (Invalid_regex ''Customer ID must be numeric''))"
  by (simp add: get_customer_orders_shape_def customer_id_schema_def numeric_abc)

lemma zparse_customer_orders_12345:
  "zparse em (ZObject get_customer_orders_shape) (JObj [(''customerId'', JStr ''12345'')]) =
     Inr (JObj [(''customerId'', JStr ''12345''), (''limit'', JNum 10)])"
  by (simp add: get_customer_orders_shape_def customer_id_schema_def numeric_abc)

lemma zparse_update_customer_abc:
  "zparse em (ZObject update_customer_shape) (JObj ((''id'', JStr ''abc'') # rest)) =
     Inl (Issue [Key ''id''] (Invalid_regex ''Customer ID must be numeric''))"
  by (simp add: update_customer_shape_def customer_id_schema_def numeric_abc)

lemma zparse_update_customer_12345:
  "zparse em (ZObject update_customer_shape) (JObj [(''id'', JStr ''12345'')]) =
     Inr (JObj [(''id'', JStr ''12345'')])"
  by (simp add: update_customer_shape_def customer_id_schema_def numeric_abc)

text \<open>
  Claim C3, as the code has it. On the structured-protocol front end the schemas of
  \<^verbatim>\<open>get-customer-orders\<close> and \<^verbatim>\<open>update-customer\<close> reject the identifier
  \<^verbatim>\<open>abc\<close> with a validation error at the path of the identifier before any executor
  runs, and accept \<^verbatim>\<open>12345\<close>. The HTTP front end validates nothing: its handlers
  call the executor with whatever identifier they are given.
\<close>

theorem numeric_id_checked_by_schema_only:
  "mcp_call_tool env ''get-customer-orders'' (JObj ((''customerId'', JStr ''abc'') # rest)) =
     (Inl (ValidationError (Issue [Key ''customerId''] (Invalid_regex ''Customer ID must be numeric''))), [])
   \<and> snd (mcp_call_tool env ''get-customer-orders'' (JObj [(''customerId'', JStr ''12345'')])) =
       [(GetCustomerOrders, JObj [(''customerId'', JStr ''12345''), (''limit'', JNum 10)])]
   \<and> mcp_call_tool env ''update-customer'' (JObj ((''id'', JStr ''abc'') # rest)) =
     (Inl (ValidationError (Issue [Key ''id''] (Invalid_regex ''Customer ID must be numeric''))), [])
   \<and> snd (mcp_call_tool env ''update-customer'' (JObj [(''id'', JStr ''12345'')])) =
       [(UpdateCustomer, JObj [(''id'', JStr ''12345'')])]
   \<and> snd (post_mcp env (tools_call_request (JStr ''get-customer-orders'') (JObj [(''customerId'', v)]))) =
       [(GetCustomerOrders, JObj [(''customerId'', v), (''limit'', JNum 10)])]
   \<and> snd (post_mcp env (tools_call_request (JStr ''update-customer'') (JObj [(''id'', v)]))) =
       [(UpdateCustomer, JObj [(''id'', v)])]"
proof (intro conjI)
  show "mcp_call_tool env ''get-customer-orders'' (JObj ((''customerId'', JStr ''abc'') # rest)) =
     (Inl (ValidationError (Issue [Key ''customerId''] (Invalid_regex ''Customer ID must be numeric''))), [])"
    by (rule mcp_call_tool_rejects[OF mcp_tools_lookup(7) zparse_customer_orders_abc])
  show "snd (mcp_call_tool env ''get-customer-orders'' (JObj [(''customerId'', JStr ''12345'')])) =
       [(GetCustomerOrders, JObj [(''customerId'', JStr ''12345''), (''limit'', JNum 10)])]"
    by (rule mcp_call_tool_accepts(1)[OF mcp_tools_lookup(7) zparse_customer_orders_12345])
  show "mcp_call_tool env ''update-customer'' (JObj ((''id'', JStr ''abc'') # rest)) =
     (Inl (ValidationError (Issue [Key ''id''] (Invalid_regex ''Customer ID must be numeric''))), [])"
    by (rule mcp_call_tool_rejects[OF mcp_tools_lookup(8) zparse_update_customer_abc])
  show "snd (mcp_call_tool env ''update-customer'' (JObj [(''id'', JStr ''12345'')])) =
       [(UpdateCustomer, JObj [(''id'', JStr ''12345'')])]"
    by (rule mcp_call_tool_accepts(1)[OF mcp_tools_lookup(8) zparse_update_customer_12345])
  show "snd (post_mcp env (tools_call_request (JStr ''get-customer-orders'') (JObj [(''customerId'', v)]))) =
       [(GetCustomerOrders, JObj [(''customerId'', v), (''limit'', JNum 10)])]"
    by (simp add: http_calls_get_customer_orders toolArgs_of_def nullish_coalesce_def)
  show "snd (post_mcp env (tools_call_request (JStr ''update-customer'') (JObj [(''id'', v)]))) =
       [(UpdateCustomer, JObj [(''id'', v)])]"
    by (simp add: http_calls_update_customer toolArgs_of_def)
qed

theorem numeric_id_checked_by_schema_only_witness:
  "mcp_call_tool sample_env ''get-customer-orders'' (JObj [(''customerId'', JStr ''abc'')]) =
     (Inl (ValidationError (Issue [Key ''customerId''] (Invalid_regex ''Customer ID must be numeric''))), [])"
  using numeric_id_checked_by_schema_only[of sample_env "[]"] by (rule conjunct1)


lemma zparse_optional_string_result:
  "zparse em (ZOptional (ZString cs)) v = Inr x \<Longrightarrow> x = v"
  using zparse_string_result[of em cs v x] by (cases "v = JUndef") simp_all

lemma zparse_default_enum_result:
  assumes "zparse em (ZDefault (ZEnum vs) d) v = Inr x"
  shows "x = nullish_coalesce v d"
proof (cases "v = JUndef")
  case True
  then show ?thesis
    using assms zparse_enum_result[of em vs d x] by (simp add: nullish_coalesce_def)
next
  case False
  then show ?thesis
    using assms zparse_enum_result[of em vs v x] by (auto simp: nullish_coalesce_def)
qed

lemma two_field_agreement:
  assumes f1: "f1 \<noteq> ''limit''"
    and parse: "zparse em (ZObject [(f1, t1), (''limit'', ZDefault ZNumber (JNum 10))]) args = Inr parsed"
    and t1: "\<And>v x. zparse em t1 v = Inr x \<Longrightarrow> x = d1 v"
  shows "get_prop (JObj [(f1, d1 (get_prop (toolArgs_of args) f1)),
                         (''limit'', nullish_coalesce (get_prop (toolArgs_of args) ''limit'') (JNum 10))]) f
         = get_prop parsed f"
proof -
  from parse[unfolded zparse_with_limit[OF f1]] obtain kvs x1 x2 where
    args: "args = JObj kvs"
    and x1: "zparse em t1 (get_prop args f1) = Inr x1"
    and x2: "zparse em ZNumber (if get_prop args ''limit'' = JUndef then JNum 10
                                 else get_prop args ''limit'') = Inr x2"
    and parsed: "parsed = JObj ((if x1 \<noteq> JUndef \<or> f1 \<in> fst ` set kvs then [(f1, x1)] else [])
                              @ [(''limit'', x2)])"
    by (auto split: jv.splits sum.splits)
  have a1: "d1 (get_prop args f1) = x1" using t1[OF x1] by simp
  have a2: "nullish_coalesce (get_prop args ''limit'') (JNum 10) = x2"
    using zparse_number_result[OF x2] by (auto simp: nullish_coalesce_def split: if_splits)
  have ta: "toolArgs_of args = args" by (simp add: args toolArgs_of_def)
  show ?thesis
    unfolding ta a1 a2 parsed using f1 by auto
qed

lemma four_tools_agree:
  assumes "(k, u, shape) \<in> set [(''get-products'', GetProducts, get_products_shape),
                                 (''get-customers'', GetCustomers, get_customers_shape),
                                 (''get-orders'', GetOrders, get_orders_shape),
                                 (''get-customer-orders'', GetCustomerOrders, get_customer_orders_shape)]"
    and "zparse em (ZObject shape) args = Inr parsed"
  shows "\<exists>a. snd (post_mcp env (tools_call_request (JStr k) args)) = [(u, a)]
           \<and> (\<forall>f. get_prop a f = get_prop parsed f)"
proof -
  consider (p) "k = ''get-products''" "u = GetProducts" "shape = get_products_shape"
    | (c) "k = ''get-customers''" "u = GetCustomers" "shape = get_customers_shape"
    | (o) "k = ''get-orders''" "u = GetOrders" "shape = get_orders_shape"
    | (co) "k = ''get-customer-orders''" "u = GetCustomerOrders" "shape = get_customer_orders_shape"
    using assms(1) by auto
  then show ?thesis
  proof cases
    case p
    have t1: "x = id v" if "zparse em (ZOptional (ZString [])) v = Inr x" for v x
      using zparse_optional_string_result[OF that] by simp
    have "get_prop (JObj [(''searchTitle'', id (get_prop (toolArgs_of args) ''searchTitle'')),
                         (''limit'', nullish_coalesce (get_prop (toolArgs_of args) ''limit'') (JNum 10))]) f
         = get_prop parsed f" for f
      by (rule two_field_agreement[OF _ assms(2)[unfolded p(3) get_products_shape_def] t1]) simp
    then show ?thesis unfolding p http_calls_get_products by simp
  next
    case c
    have t1: "x = id v" if "zparse em (ZOptional (ZString [])) v = Inr x" for v x
      using zparse_optional_string_result[OF that] by simp
    have "get_prop (JObj [(''searchQuery'', id (get_prop (toolArgs_of args) ''searchQuery'')),
                         (''limit'', nullish_coalesce (get_prop (toolArgs_of args) ''limit'') (JNum 10))]) f
         = get_prop parsed f" for f
      by (rule two_field_agreement[OF _ assms(2)[unfolded c(3) get_customers_shape_def] t1]) simp
    then show ?thesis unfolding c http_calls_get_customers by simp
  next
    case o
    have t1: "x = (\<lambda>v. nullish_coalesce v (JStr ''any'')) v"
      if "zparse em (ZDefault (ZEnum [''any'', ''open'', ''closed'', ''cancelled'']) (JStr ''any'')) v = Inr x"
      for v x
      using zparse_default_enum_result[OF that] by simp
    have "get_prop (JObj [(''status'', (\<lambda>v. nullish_coalesce v (JStr ''any''))
                                        (get_prop (toolArgs_of args) ''status'')),
                         (''limit'', nullish_coalesce (get_prop (toolArgs_of args) ''limit'') (JNum 10))]) f
         = get_prop parsed f" for f
      by (rule two_field_agreement[OF _ assms(2)[unfolded o(3) get_orders_shape_def] t1]) simp
    then show ?thesis unfolding o http_calls_get_orders by simp
  next
    case co
    have t1: "x = id v"
      if "zparse em (ZString [Regex numeric ''Customer ID must be numeric'']) v = Inr x" for v x
      using zparse_string_result[OF that] by simp
    have "get_prop (JObj [(''customerId'', id (get_prop (toolArgs_of args) ''customerId'')),
                         (''limit'', nullish_coalesce (get_prop (toolArgs_of args) ''limit'') (JNum 10))]) f
         = get_prop parsed f" for f
      by (rule two_field_agreement
            [OF _ assms(2)[unfolded co(3) get_customer_orders_shape_def customer_id_schema_def] t1])
         simp
    then show ?thesis unfolding co http_calls_get_customer_orders by simp
  qed
qed

lemma mcp_tools_callback:
  assumes "map_of mcp_tools k = Some (shape, cb)"
  shows "\<exists>u. cb = tool_callback u"
proof -
  have "(k, shape, cb) \<in> set mcp_tools" using assms by (rule map_of_SomeD)
  then show ?thesis by (auto simp: mcp_tools_def)
qed

lemma four_tools_lookup:
  assumes "(k, u, shape) \<in> set [(''get-products'', GetProducts, get_products_shape),
                                 (''get-customers'', GetCustomers, get_customers_shape),
                                 (''get-orders'', GetOrders, get_orders_shape),
                                 (''get-customer-orders'', GetCustomerOrders, get_customer_orders_shape)]"
  shows "map_of mcp_tools k = Some (shape, tool_callback u)"
  using assms by (auto simp: mcp_tools_lookup)

text \<open>
  Against claim C1 as stated: for \<^verbatim>\<open>create-product\<close> without \<^verbatim>\<open>status\<close> the HTTP
  handler passes the arguments on without a \<^verbatim>\<open>status\<close>, while the schema fills in
  \<^verbatim>\<open>DRAFT\<close>; and for \<^verbatim>\<open>get-product-by-id\<close> without \<^verbatim>\<open>productId\<close> the HTTP
  handler calls the executor, while the schema rejects the call for the missing field.
\<close>

theorem default_filling_differs:
  "snd (post_mcp sample_env
          (tools_call_request (JStr ''create-product'') (JObj [(''title'', JStr ''T'')]))) =
     [(CreateProduct, JObj [(''title'', JStr ''T'')])]
   \<and> snd (mcp_call_tool sample_env ''create-product'' (JObj [(''title'', JStr ''T'')])) =
     [(CreateProduct, JObj [(''title'', JStr ''T''), (''status'', JStr ''DRAFT'')])]
   \<and> snd (post_mcp sample_env (tools_call_request (JStr ''get-product-by-id'') (JObj []))) =
     [(GetProductById, JObj [])]
   \<and> mcp_call_tool sample_env ''get-product-by-id'' (JObj []) =
     (Inl (ValidationError (Issue [Key ''productId''] Invalid_type)), [])"
  by code_simp

lemma http_calls_own_executor:
  assumes "(k, u) \<in> set
      [(''get-products'', GetProducts), (''get-product-by-id'', GetProductById),
       (''get-customers'', GetCustomers), (''get-orders'', GetOrders),
       (''get-order-by-id'', GetOrderById), (''update-order'', UpdateOrder),
       (''get-customer-orders'', GetCustomerOrders), (''update-customer'', UpdateCustomer),
       (''create-product'', CreateProduct)]"
  shows "\<exists>a. snd (post_mcp env (tools_call_request (JStr k) args)) = [(u, a)]"
  using assms
  by (auto simp: http_calls_get_products http_calls_get_customers http_calls_get_orders
      http_calls_get_customer_orders http_calls_get_product_by_id http_calls_get_order_by_id
      http_calls_update_order http_calls_update_customer http_calls_create_product)

lemma zparse_missing_required:
  assumes "get_prop args f = JUndef"
  shows "zparse em (ZObject ((f, ZString cs) # rest)) args =
     (case args of
        JObj kvs \<Rightarrow> Inl (Issue [Key f] Invalid_type)
      | _ \<Rightarrow> Inl (Issue [] Invalid_type))"
proof (cases args)
  case (JObj kvs)
  have "zparse em (ZString cs) (get_prop args f) = Inl (Issue [] Invalid_type)"
    by (simp add: assms)
  then show ?thesis by (simp add: JObj)
qed simp_all

lemma required_shapes:
  assumes "(k, f) \<in> set
      [(''get-product-by-id'', ''productId''), (''get-order-by-id'', ''orderId''),
       (''update-order'', ''id''), (''get-customer-orders'', ''customerId''),
       (''update-customer'', ''id''), (''create-product'', ''title'')]"
  shows "\<exists>cs rest cb. map_of mcp_tools k = Some ((f, ZString cs) # rest, cb)"
  using assms
  by (auto simp: mcp_tools_lookup get_product_by_id_shape_def get_order_by_id_shape_def
      update_order_shape_def get_customer_orders_shape_def update_customer_shape_def
      create_product_shape_def customer_id_schema_def)

lemma schema_rejects_missing_required:
  assumes "(k, f) \<in> set
      [(''get-product-by-id'', ''productId''), (''get-order-by-id'', ''orderId''),
       (''update-order'', ''id''), (''get-customer-orders'', ''customerId''),
       (''update-customer'', ''id''), (''create-product'', ''title'')]"
    and "get_prop args f = JUndef"
  shows "\<exists>i. mcp_call_tool env k args = (Inl (ValidationError i), [])
            \<and> (\<forall>kvs. args = JObj kvs \<longrightarrow> i = Issue [Key f] Invalid_type)"
proof -
  obtain cs rest cb where tool: "map_of mcp_tools k = Some ((f, ZString cs) # rest, cb)"
    using required_shapes[OF assms(1)] by blast
  let ?i = "case args of JObj kvs \<Rightarrow> Issue [Key f] Invalid_type | _ \<Rightarrow> Issue [] Invalid_type"
  have "zparse (email_format env) (ZObject ((f, ZString cs) # rest)) args = Inl ?i"
    unfolding zparse_missing_required[OF assms(2)] by (cases args) simp_all
  then have "mcp_call_tool env k args = (Inl (ValidationError ?i), [])"
    by (rule mcp_call_tool_rejects[OF tool])
  moreover have "\<forall>kvs. args = JObj kvs \<longrightarrow> ?i = Issue [Key f] Invalid_type" by simp
  ultimately show ?thesis by blast
qed

text \<open>
  Claim C1, as the code has it. For \<^verbatim>\<open>get-products\<close>, \<^verbatim>\<open>get-customers\<close>,
  \<^verbatim>\<open>get-orders\<close> and \<^verbatim>\<open>get-customer-orders\<close>, whenever the schema accepts the
  arguments, the object the HTTP handler gives the executor and the object the schema
  produces have the same value at every field: both front ends resolve the same defaults.
  The required fields differ. The HTTP front end treats no field as required: the handler
  of every registered tool calls that tool's executor, whatever the arguments are. The
  schema rejects, before any executor runs, every call whose arguments lack
  \<^verbatim>\<open>productId\<close> (get-product-by-id), \<^verbatim>\<open>orderId\<close> (get-order-by-id), \<^verbatim>\<open>id\<close>
  (update-order, update-customer), \<^verbatim>\<open>customerId\<close> (get-customer-orders) or
  \<^verbatim>\<open>title\<close> (create-product); for an argument object the issue is at that field.
\<close>

theorem defaults_agree_required_fields_differ:
  assumes "(k, u, shape) \<in> set [(''get-products'', GetProducts, get_products_shape),
                                 (''get-customers'', GetCustomers, get_customers_shape),
                                 (''get-orders'', GetOrders, get_orders_shape),
                                 (''get-customer-orders'', GetCustomerOrders, get_customer_orders_shape)]"
    and "zparse (email_format env) (ZObject shape) args = Inr parsed"
    and "(k', u') \<in> set
      [(''get-products'', GetProducts), (''get-product-by-id'', GetProductById),
       (''get-customers'', GetCustomers), (''get-orders'', GetOrders),
       (''get-order-by-id'', GetOrderById), (''update-order'', UpdateOrder),
       (''get-customer-orders'', GetCustomerOrders), (''update-customer'', UpdateCustomer),
       (''create-product'', CreateProduct)]"
    and "(k'', f) \<in> set
      [(''get-product-by-id'', ''productId''), (''get-order-by-id'', ''orderId''),
       (''update-order'', ''id''), (''get-customer-orders'', ''customerId''),
       (''update-customer'', ''id''), (''create-product'', ''title'')]"
    and "get_prop args'' f = JUndef"
  shows "(\<exists>a. snd (post_mcp env (tools_call_request (JStr k) args)) = [(u, a)]
              \<and> snd (mcp_call_tool env k args) = [(u, parsed)]
              \<and> (\<forall>g. get_prop a g = get_prop parsed g))
       \<and> (\<exists>a'. snd (post_mcp env (tools_call_request (JStr k') args')) = [(u', a')])
       \<and> (\<exists>i. mcp_call_tool env k'' args'' = (Inl (ValidationError i), [])
              \<and> (\<forall>kvs. args'' = JObj kvs \<longrightarrow> i = Issue [Key f] Invalid_type))"
  using four_tools_agree[OF assms(1,2), of env]
    mcp_call_tool_accepts(1)[OF four_tools_lookup[OF assms(1)] assms(2)]
    http_calls_own_executor[OF assms(3), of env args']
    schema_rejects_missing_required[OF assms(4,5), of env]
  by blast

theorem defaults_agree_required_fields_differ_witness:
  "(\<exists>a. snd (post_mcp sample_env (tools_call_request (JStr ''get-orders'') (JObj []))) = [(GetOrders, a)]
        \<and> snd (mcp_call_tool sample_env ''get-orders'' (JObj [])) =
            [(GetOrders, JObj [(''status'', JStr ''any''), (''limit'', JNum 10)])]
        \<and> (\<forall>g. get_prop a g = get_prop (JObj [(''status'', JStr ''any''), (''limit'', JNum 10)]) g))
   \<and> (\<exists>a'. snd (post_mcp sample_env (tools_call_request (JStr ''get-product-by-id'') (JObj []))) =
          [(GetProductById, a')])
   \<and> mcp_call_tool sample_env ''get-product-by-id'' (JObj []) =
        (Inl (ValidationError (Issue [Key ''productId''] Invalid_type)), [])"
proof -
  have h1: "(''get-orders'', GetOrders, get_orders_shape) \<in>
        set [(''get-products'', GetProducts, get_products_shape),
             (''get-customers'', GetCustomers, get_customers_shape),
             (''get-orders'', GetOrders, get_orders_shape),
             (''get-customer-orders'', GetCustomerOrders, get_customer_orders_shape)]"
    by simp
  have h2: "zparse (email_format sample_env) (ZObject get_orders_shape) (JObj []) =
        Inr (JObj [(''status'', JStr ''any''), (''limit'', JNum 10)])"
    by (simp add: get_orders_shape_def)
  have h3: "(''get-product-by-id'', GetProductById) \<in> set
      [(''get-products'', GetProducts), (''get-product-by-id'', GetProductById),
       (''get-customers'', GetCustomers), (''get-orders'', GetOrders),
       (''get-order-by-id'', GetOrderById), (''update-order'', UpdateOrder),
       (''get-customer-orders'', GetCustomerOrders), (''update-customer'', UpdateCustomer),
       (''create-product'', CreateProduct)]"
    by simp
  have h4: "(''get-product-by-id'', ''productId'') \<in> set
      [(''get-product-by-id'', ''productId''), (''get-order-by-id'', ''orderId''),
       (''update-order'', ''id''), (''get-customer-orders'', ''customerId''),
       (''update-customer'', ''id''), (''create-product'', ''title'')]"
    by simp
  have h5: "get_prop (JObj []) ''productId'' = JUndef" by simp
  show ?thesis
    using defaults_agree_required_fields_differ[OF h1 h2 h3 h4 h5, of "JObj []"]
    by blast
qed

text \<open>
  Against claim C5 as stated: the HTTP handler of \<^verbatim>\<open>update-order\<close> forwards the field
  \<^verbatim>\<open>bogus\<close>, which the schema does not declare (and which the structured-protocol
  front end drops).
\<close>

theorem http_forwards_undeclared_field:
  "snd (post_mcp sample_env
          (tools_call_request (JStr ''update-order'')
             (JObj [(''id'', JStr ''1''), (''bogus'', JBool True)]))) =
     [(UpdateOrder, JObj [(''id'', JStr ''1''), (''bogus'', JBool True)])]
   \<and> ''bogus'' \<notin> set (map fst update_order_shape)
   \<and> snd (mcp_call_tool sample_env ''update-order''
             (JObj [(''id'', JStr ''1''), (''bogus'', JBool True)])) =
     [(UpdateOrder, JObj [(''id'', JStr ''1'')])]"
  by code_simp

text \<open>
  Claim C5, as the code has it. On the structured-protocol front end the executor of
  every tool receives an object whose keys are all declared in the tool's shape. On the
  HTTP front end the handlers of the four tools with \<^verbatim>\<open>limit\<close> build an object of
  exactly their two declared fields; the handlers of \<^verbatim>\<open>get-product-by-id\<close>,
  \<^verbatim>\<open>get-order-by-id\<close>, \<^verbatim>\<open>update-order\<close> and \<^verbatim>\<open>update-customer\<close> forward the
  argument object unchanged; and the executor of \<^verbatim>\<open>create-product\<close> receives every
  field that was supplied, declared or not.
\<close>

theorem undeclared_fields_by_front_end:
  assumes "map_of mcp_tools k = Some (shape, cb)"
  shows "(snd (mcp_call_tool env k args) = []
          \<or> (\<exists>u fs. snd (mcp_call_tool env k args) = [(u, JObj fs)]
                \<and> fst ` set fs \<subseteq> fst ` set shape))
       \<and> (\<exists>v1 v2. snd (post_mcp env (tools_call_request (JStr ''get-products'') raw)) =
             [(GetProducts, JObj [(''searchTitle'', v1), (''limit'', v2)])])
       \<and> (\<exists>v1 v2. snd (post_mcp env (tools_call_request (JStr ''get-customers'') raw)) =
             [(GetCustomers, JObj [(''searchQuery'', v1), (''limit'', v2)])])
       \<and> (\<exists>v1 v2. snd (post_mcp env (tools_call_request (JStr ''get-orders'') raw)) =
             [(GetOrders, JObj [(''status'', v1), (''limit'', v2)])])
       \<and> (\<exists>v1 v2. snd (post_mcp env (tools_call_request (JStr ''get-customer-orders'') raw)) =
             [(GetCustomerOrders, JObj [(''customerId'', v1), (''limit'', v2)])])
       \<and> snd (post_mcp env (tools_call_request (JStr ''get-product-by-id'') raw)) =
             [(GetProductById, toolArgs_of raw)]
       \<and> snd (post_mcp env (tools_call_request (JStr ''get-order-by-id'') raw)) =
             [(GetOrderById, toolArgs_of raw)]
       \<and> snd (post_mcp env (tools_call_request (JStr ''update-order'') raw)) =
             [(UpdateOrder, toolArgs_of raw)]
       \<and> snd (post_mcp env (tools_call_request (JStr ''update-customer'') raw)) =
             [(UpdateCustomer, toolArgs_of raw)]
       \<and> (\<exists>a. snd (post_mcp env (tools_call_request (JStr ''create-product'') raw)) =
                 [(CreateProduct, a)]
              \<and> (\<forall>f. get_prop (toolArgs_of raw) f \<noteq> JUndef \<longrightarrow>
                       get_prop a f = get_prop (toolArgs_of raw) f))"
proof -
  obtain u where cb: "cb = tool_callback u"
    using mcp_tools_callback[OF assms] by blast
  have "snd (mcp_call_tool env k args) = []
          \<or> (\<exists>u fs. snd (mcp_call_tool env k args) = [(u, JObj fs)]
                \<and> fst ` set fs \<subseteq> fst ` set shape)"
  proof (cases "zparse (email_format env) (ZObject shape) args")
    case (Inl i)
    then show ?thesis using mcp_call_tool_rejects[OF assms Inl] by simp
  next
    case (Inr parsed)
    then show ?thesis
      using mcp_call_tool_accepts(1)[OF assms[unfolded cb] Inr] zparse_object_keys[OF Inr]
      by blast
  qed
  then show ?thesis
    by (simp add: http_calls_get_products http_calls_get_customers http_calls_get_orders
        http_calls_get_customer_orders http_calls_get_product_by_id http_calls_get_order_by_id
        http_calls_update_order http_calls_update_customer http_calls_create_product)
qed

theorem undeclared_fields_by_front_end_witness:
  "snd (mcp_call_tool sample_env ''update-order''
          (JObj [(''id'', JStr ''1''), (''bogus'', JBool True)])) = []
    \<or> (\<exists>u fs. snd (mcp_call_tool sample_env ''update-order''
                      (JObj [(''id'', JStr ''1''), (''bogus'', JBool True)])) = [(u, JObj fs)]
          \<and> fst ` set fs \<subseteq> fst ` set update_order_shape)"
  using undeclared_fields_by_front_end[OF mcp_tools_lookup(6), of sample_env
      "JObj [(''id'', JStr ''1''), (''bogus'', JBool True)]"]
  by (rule conjunct1)

end
